theory Spec2Isabelle
  imports Main "HOL-Library.Word" "HOL-Library.Signed_Division" "HOL-Library.Sublist"
    "HOL-Library.AList"
begin

section \<open>Go values used by the runtime\<close>

text \<open>
  Go's \<open>int\<close> is a 64-bit two's complement integer on the platforms the engine targets:
  \<open>+\<close> and \<open>-\<close> wrap around, comparisons are signed, and \<open>%\<close> truncates towards zero
  (the sign of the result follows the dividend).
\<close>

type_synonym go_int = "64 word"

definition go_rem :: "go_int \<Rightarrow> go_int \<Rightarrow> go_int" where
  "go_rem a b = word_of_int (sint a smod sint b)"

datatype go_panic = NilPointerDereference | AssignmentToNilMap

section \<open>package runtime: the loop record and the loop stack\<close>

text \<open>
  \<open>*Loop\<close> values are pointers. The records live in a store (a list, the address of a
  record is its position); \<open>None\<close> is the nil pointer. Allocation appends to the store.
\<close>

type_synonym loop_ptr = "nat option"

record Loop =
  Index :: go_int
  Iteration :: go_int
  Remaining :: go_int
  Count :: go_int
  First :: bool
  Last :: bool
  Even :: bool
  Odd :: bool
  Depth :: go_int
  Parent :: loop_ptr

type_synonym loop_heap = "Loop list"

definition NewLoop :: "loop_heap \<Rightarrow> go_int \<Rightarrow> go_int \<Rightarrow> loop_heap \<times> loop_ptr" where
  "NewLoop h count depth =
     (h @ [\<lparr>Index = - 1, Iteration = 0, Remaining = count, Count = count,
             First = True, Last = (count = 1), Even = False, Odd = True,
             Depth = depth, Parent = None\<rparr>],
      Some (length h))"

text \<open>
  \<open>Update\<close> builds a fresh record from the receiver's \<open>Count\<close>, \<open>Depth\<close> and \<open>Parent\<close>;
  the fields the composite literal leaves out start at their zero values and are
  assigned afterwards. A nil receiver panics at the first field read.
\<close>

definition Update :: "loop_heap \<Rightarrow> loop_ptr \<Rightarrow> go_int \<Rightarrow> go_panic + (loop_heap \<times> loop_ptr)" where
  "Update h l index =
     (case l of
        None \<Rightarrow> Inl NilPointerDereference
      | Some a \<Rightarrow>
          if length h \<le> a then Inl NilPointerDereference
          else
            let old = h ! a;
                newLoop = \<lparr>Index = index, Iteration = index + 1, Remaining = 0,
                           Count = Count old, First = False, Last = False,
                           Even = False, Odd = False,
                           Depth = Depth old, Parent = Parent old\<rparr>;
                newLoop = (if 0 \<le>s Count old
                           then newLoop\<lparr>Remaining := Count old - index - 1,
                                        Last := (index = Count old - 1)\<rparr>
                           else newLoop\<lparr>Remaining := - 1, Last := False\<rparr>);
                newLoop = newLoop\<lparr>First := (index = 0)\<rparr>;
                newLoop = newLoop\<lparr>Even := (go_rem (index + 1) 2 = 0)\<rparr>;
                newLoop = newLoop\<lparr>Odd := (go_rem (index + 1) 2 = 1)\<rparr>
            in Inr (h @ [newLoop], Some (length h)))"

record LoopStack =
  stack :: "loop_ptr list"

definition NewLoopStack :: LoopStack where
  "NewLoopStack = \<lparr>stack = []\<rparr>"

text \<open>\<open>Push\<close> writes \<open>Parent\<close> and \<open>Depth\<close> into the record it is given, in place.\<close>

definition Push :: "loop_heap \<Rightarrow> LoopStack \<Rightarrow> loop_ptr \<Rightarrow> go_panic + (loop_heap \<times> LoopStack)" where
  "Push h s loop =
     (case loop of
        None \<Rightarrow> Inl NilPointerDereference
      | Some a \<Rightarrow>
          if length h \<le> a then Inl NilPointerDereference
          else
            let h1 = (if 0 < length (stack s)
                      then h[a := (h ! a)\<lparr>Parent := last (stack s)\<rparr>]
                      else h);
                h2 = h1[a := (h1 ! a)\<lparr>Depth := of_nat (length (stack s)) + 1\<rparr>]
            in Inr (h2, s\<lparr>stack := stack s @ [loop]\<rparr>))"

definition Pop :: "LoopStack \<Rightarrow> loop_ptr \<times> LoopStack" where
  "Pop s =
     (if length (stack s) = 0 then (None, s)
      else (last (stack s), s\<lparr>stack := butlast (stack s)\<rparr>))"

definition Current :: "LoopStack \<Rightarrow> loop_ptr" where
  "Current s = (if length (stack s) = 0 then None else last (stack s))"

definition LoopStack_Depth :: "LoopStack \<Rightarrow> go_int" where
  "LoopStack_Depth s = of_nat (length (stack s))"

section \<open>Render context (package runtime)\<close>

text \<open>
  A \<open>*Context\<close> is a pointer, and its five tables are Go maps, which are references too;
  the stacks and the errors hold slices, which refer to backing arrays. The store keeps
  each kind of object in a list of its own, an address being an index into that list and
  an allocation an append at its end. A map is the list of its entries, a slice is the
  triple of Go's runtime (pointer into an array, length, capacity), \<open>None\<close> is nil. The
  values of type \<open>interface{}\<close> are left abstract (\<open>'v\<close>). The mutex is not modelled: the
  calls are taken one after the other.
\<close>

type_synonym addr = nat

record GoSlice =
  s_arr :: "addr option"
  s_off :: nat
  s_len :: nat
  s_cap :: nat

record Context =
  c_data :: "addr option"
  c_stacks :: "addr option"
  c_sections :: "addr option"
  c_errors :: "addr option"
  c_old :: "addr option"

record 'v Heap =
  ctxs :: "Context list"
  ifaceMaps :: "(string \<times> 'v) list list"
  sliceMaps :: "(string \<times> GoSlice) list list"
  strMaps :: "(string \<times> string) list list"
  arrays :: "string list list"








definition assignStr :: "'v Heap \<Rightarrow> addr option \<Rightarrow> string \<Rightarrow> string \<Rightarrow> go_panic + 'v Heap" where
  "assignStr h m k v =
     (case m of
        None \<Rightarrow> Inl AssignmentToNilMap
      | Some a \<Rightarrow> Inr (h\<lparr>strMaps := (strMaps h)[a := AList.update k v (strMaps h ! a)]\<rparr>))"


definition entriesSlice :: "'v Heap \<Rightarrow> addr option \<Rightarrow> (string \<times> GoSlice) list" where
  "entriesSlice h m = (case m of None \<Rightarrow> [] | Some a \<Rightarrow> sliceMaps h ! a)"




fun assignAllStr :: "'v Heap \<Rightarrow> addr option \<Rightarrow> (string \<times> string) list \<Rightarrow> go_panic + 'v Heap" where
  "assignAllStr h m [] = Inr h"
| "assignAllStr h m ((k, v) # es) =
     (case assignStr h m k v of
        Inl e \<Rightarrow> Inl e
      | Inr h' \<Rightarrow> assignAllStr h' m es)"


















text \<open>
  Memory safety, which Go guarantees: the context is allocated, and so are its maps and
  the backing arrays of the slices in them.
\<close>

definition sliceArrays :: "(string \<times> GoSlice) list \<Rightarrow> addr set" where
  "sliceArrays m = (\<Union>e \<in> set m. set_option (s_arr (snd e)))"

definition mapArrays :: "'v Heap \<Rightarrow> addr option \<Rightarrow> addr set" where
  "mapArrays h m = sliceArrays (entriesSlice h m)"










section \<open>Go strings\<close>

text \<open>
  A Go \<open>string\<close> is a sequence of bytes; \<open>len\<close> and indexing count bytes. The functions of
  package \<open>strings\<close> that the engine calls are written out here, with Go's results.
\<close>

definition slice :: "string \<Rightarrow> nat \<Rightarrow> nat \<Rightarrow> string" where
  \<comment> \<open>\<open>s[i:j]\<close>\<close>
  "slice s i j = take (j - i) (drop i s)"

fun strings_Index :: "string \<Rightarrow> string \<Rightarrow> nat option" where
  \<comment> \<open>\<open>strings.Index\<close>; \<open>None\<close> stands for \<open>-1\<close>\<close>
  "strings_Index [] sub = (if sub = [] then Some 0 else None)"
| "strings_Index (c # cs) sub =
     (if prefix sub (c # cs) then Some 0 else map_option Suc (strings_Index cs sub))"

definition Contains :: "string \<Rightarrow> string \<Rightarrow> bool" where
  "Contains s sub = (strings_Index s sub \<noteq> None)"

definition TrimPrefix :: "string \<Rightarrow> string \<Rightarrow> string" where
  "TrimPrefix s p = (if prefix p s then drop (length p) s else s)"

definition asciiSpace :: "char \<Rightarrow> bool" where
  "asciiSpace c = (c = CHR 0x09 \<or> c = CHR 0x0A \<or> c = CHR 0x0B \<or> c = CHR 0x0C
                    \<or> c = CHR 0x0D \<or> c = CHR 0x20)"

text \<open>
  \<open>strings.TrimSpace\<close> removes leading and trailing white space as Unicode defines it.
  Besides the six ASCII characters these are the code points U+0085, U+00A0, U+1680,
  U+2000 to U+200A, U+2028, U+2029, U+202F, U+205F and U+3000, listed here by their
  UTF-8 encodings.
\<close>

definition unicodeSpaces :: "string list" where
  "unicodeSpaces =
     [[CHR 0xC2, CHR 0x85], [CHR 0xC2, CHR 0xA0], [CHR 0xE1, CHR 0x9A, CHR 0x80],
      [CHR 0xE2, CHR 0x80, CHR 0x80], [CHR 0xE2, CHR 0x80, CHR 0x81],
      [CHR 0xE2, CHR 0x80, CHR 0x82], [CHR 0xE2, CHR 0x80, CHR 0x83],
      [CHR 0xE2, CHR 0x80, CHR 0x84], [CHR 0xE2, CHR 0x80, CHR 0x85],
      [CHR 0xE2, CHR 0x80, CHR 0x86], [CHR 0xE2, CHR 0x80, CHR 0x87],
      [CHR 0xE2, CHR 0x80, CHR 0x88], [CHR 0xE2, CHR 0x80, CHR 0x89],
      [CHR 0xE2, CHR 0x80, CHR 0x8A], [CHR 0xE2, CHR 0x80, CHR 0xA8],
      [CHR 0xE2, CHR 0x80, CHR 0xA9], [CHR 0xE2, CHR 0x80, CHR 0xAF],
      [CHR 0xE2, CHR 0x81, CHR 0x9F], [CHR 0xE3, CHR 0x80, CHR 0x80]]"

definition spacePrefixLen :: "string \<Rightarrow> nat" where
  \<comment> \<open>the width of the white-space rune \<open>s\<close> starts with, 0 when it starts with none\<close>
  "spacePrefixLen s =
     (case s of
        [] \<Rightarrow> 0
      | c # cs \<Rightarrow>
          if asciiSpace c then 1
          else (case find (\<lambda>p. prefix p s) unicodeSpaces of
                  None \<Rightarrow> 0 | Some p \<Rightarrow> length p))"

definition spaceSuffixLen :: "string \<Rightarrow> nat" where
  "spaceSuffixLen s =
     (if s = [] then 0
      else if asciiSpace (last s) then 1
      else (case find (\<lambda>p. suffix p s) unicodeSpaces of
              None \<Rightarrow> 0 | Some p \<Rightarrow> length p))"

lemma spacePrefixLen_le: "spacePrefixLen s \<le> length s"
  by (auto simp: spacePrefixLen_def find_Some_iff split: list.splits option.splits
           dest: prefix_length_le)

lemma spaceSuffixLen_le: "spaceSuffixLen s \<le> length s"
  by (auto simp: spaceSuffixLen_def Suc_leI find_Some_iff split: option.splits
           dest: suffix_length_le)

function TrimLeftSpace :: "string \<Rightarrow> string" where
  "TrimLeftSpace s =
     (if spacePrefixLen s = 0 then s else TrimLeftSpace (drop (spacePrefixLen s) s))"
  by pat_completeness auto
termination
proof (relation "measure length")
  show "wf (measure length)" by simp
next
  fix s :: string
  assume "spacePrefixLen s \<noteq> 0"
  then show "(drop (spacePrefixLen s) s, s) \<in> measure length"
    using spacePrefixLen_le [of s] by (cases s) (auto simp: spacePrefixLen_def)
qed

function TrimRightSpace :: "string \<Rightarrow> string" where
  "TrimRightSpace s =
     (if spaceSuffixLen s = 0 then s
      else TrimRightSpace (take (length s - spaceSuffixLen s) s))"
  by pat_completeness auto
termination
proof (relation "measure length")
  show "wf (measure length)" by simp
next
  fix s :: string
  assume "spaceSuffixLen s \<noteq> 0"
  then show "(take (length s - spaceSuffixLen s) s, s) \<in> measure length"
    using spaceSuffixLen_le [of s] by (cases "s = []") (auto simp: spaceSuffixLen_def)
qed

declare TrimLeftSpace.simps [simp del] TrimRightSpace.simps [simp del]

definition TrimSpace :: "string \<Rightarrow> string" where
  "TrimSpace s = TrimRightSpace (TrimLeftSpace s)"


text \<open>
  \<open>unicode.IsLetter\<close> and \<open>unicode.IsDigit\<close> are applied to \<open>rune(b)\<close> for a single byte
  \<open>b\<close>, that is to a code point below U+0100.
\<close>

definition IsLetter :: "char \<Rightarrow> bool" where
  "IsLetter c =
     (let n = (of_char c :: nat)
      in (65 \<le> n \<and> n \<le> 90) \<or> (97 \<le> n \<and> n \<le> 122) \<or> n = 170 \<or> n = 181 \<or> n = 186
         \<or> (192 \<le> n \<and> n \<le> 214) \<or> (216 \<le> n \<and> n \<le> 246) \<or> (248 \<le> n \<and> n \<le> 255))"

definition IsDigit :: "char \<Rightarrow> bool" where
  "IsDigit c = (let n = (of_char c :: nat) in 48 \<le> n \<and> n \<le> 57)"

section \<open>package lexer\<close>

datatype TokenType =
    TOKEN_TEXT | TOKEN_ECHO_ESCAPED | TOKEN_ECHO_RAW | TOKEN_COMMENT | TOKEN_DIRECTIVE
  | TOKEN_DIRECTIVE_ARGS | TOKEN_VERBATIM_START | TOKEN_VERBATIM_END | TOKEN_EOF

record Position =
  Line :: int
  Column :: int
  Offset :: int

record Token =
  Type :: TokenType
  Value :: string
  Args :: string
  Position :: Position

record LexerError =
  Message :: string
  ErrPosition :: Position

record Lexer =
  input :: string
  pos :: nat
  line :: int
  column :: int
  inVerbatim :: bool
  tokens :: "Token list"

definition zeroPosition :: Position where
  "zeroPosition = \<lparr>Line = 0, Column = 0, Offset = 0\<rparr>"

definition New :: "string \<Rightarrow> Lexer" where
  "New inp = \<lparr>input = inp, pos = 0, line = 1, column = 1, inVerbatim = False, tokens = []\<rparr>"

definition here :: "Lexer \<Rightarrow> Position" where
  \<comment> \<open>\<open>Position{Line: l.line, Column: l.column, Offset: l.pos}\<close>\<close>
  "here l = \<lparr>Line = line l, Column = column l, Offset = int (pos l)\<rparr>"

definition current :: "Lexer \<Rightarrow> char" where
  "current l = (if length (input l) \<le> pos l then CHR 0x00 else input l ! pos l)"

definition advance :: "Lexer \<Rightarrow> Lexer" where
  "advance l =
     (if pos l < length (input l)
      then (if input l ! pos l = CHR 0x0A
            then l\<lparr>pos := pos l + 1, line := line l + 1, column := 1\<rparr>
            else l\<lparr>pos := pos l + 1, column := column l + 1\<rparr>)
      else l)"

fun advanceN :: "nat \<Rightarrow> Lexer \<Rightarrow> Lexer" where
  "advanceN 0 l = l"
| "advanceN (Suc n) l = advanceN n (advance l)"

definition matchString :: "Lexer \<Rightarrow> string \<Rightarrow> bool" where
  "matchString l s =
     (if length (input l) < pos l + length s then False
      else slice (input l) (pos l) (pos l + length s) = s)"

definition remaining :: "Lexer \<Rightarrow> nat" where
  \<comment> \<open>the number of bytes not yet consumed; the measure of every scanning loop\<close>
  "remaining l = length (input l) - pos l"

lemma advance_input [simp]: "input (advance l) = input l"
  by (simp add: advance_def)

lemma advance_pos: "pos l < length (input l) \<Longrightarrow> pos (advance l) = Suc (pos l)"
  by (simp add: advance_def)

lemma advance_remaining [simp]:
  "pos l < length (input l) \<Longrightarrow> remaining (advance l) < remaining l"
  by (auto simp: advance_def remaining_def)

function skipWhitespace :: "Lexer \<Rightarrow> Lexer" where
  "skipWhitespace l =
     (if pos l < length (input l) \<and> (input l ! pos l = CHR '' '' \<or> input l ! pos l = CHR 0x09)
      then skipWhitespace (advance l) else l)"
  by pat_completeness auto
termination
  by (relation "measure remaining") auto

function scanComment_loop :: "Position \<Rightarrow> nat \<Rightarrow> Lexer \<Rightarrow> (LexerError + Token) \<times> Lexer" where
  "scanComment_loop startPos start l =
     (if pos l < length (input l)
      then (if matchString l ''--}}''
            then let content = slice (input l) start (pos l);
                     l = advanceN 4 l
                 in (Inr \<lparr>Type = TOKEN_COMMENT, Value = TrimSpace content, Args = [],
                          Position = startPos\<rparr>, l)
            else scanComment_loop startPos start (advance l))
      else (Inl \<lparr>Message = ''Unclosed comment'', ErrPosition = startPos\<rparr>, l))"
  by pat_completeness auto
termination
  by (relation "measure (\<lambda>(startPos, start, l). remaining l)") auto

definition scanComment :: "Position \<Rightarrow> Lexer \<Rightarrow> (LexerError + Token) \<times> Lexer" where
  "scanComment startPos l = (let l = advanceN 4 l in scanComment_loop startPos (pos l) l)"

function scanRawEcho_loop :: "Position \<Rightarrow> nat \<Rightarrow> Lexer \<Rightarrow> (LexerError + Token) \<times> Lexer" where
  "scanRawEcho_loop startPos start l =
     (if pos l < length (input l)
      then (if matchString l ''!!}''
            then let content = TrimSpace (slice (input l) start (pos l));
                     l = advanceN 3 l
                 in (Inr \<lparr>Type = TOKEN_ECHO_RAW, Value = content, Args = [],
                          Position = startPos\<rparr>, l)
            else scanRawEcho_loop startPos start (advance l))
      else (Inl \<lparr>Message = ''Unclosed raw echo'', ErrPosition = startPos\<rparr>, l))"
  by pat_completeness auto
termination
  by (relation "measure (\<lambda>(startPos, start, l). remaining l)") auto

definition scanRawEcho :: "Position \<Rightarrow> Lexer \<Rightarrow> (LexerError + Token) \<times> Lexer" where
  "scanRawEcho startPos l =
     (let l = skipWhitespace (advanceN 3 l) in scanRawEcho_loop startPos (pos l) l)"

function scanEscapedEcho_loop :: "Position \<Rightarrow> nat \<Rightarrow> Lexer \<Rightarrow> (LexerError + Token) \<times> Lexer" where
  "scanEscapedEcho_loop startPos start l =
     (if pos l < length (input l)
      then (if matchString l ''}}''
            then let content = TrimSpace (slice (input l) start (pos l));
                     l = advanceN 2 l
                 in (Inr \<lparr>Type = TOKEN_ECHO_ESCAPED, Value = content, Args = [],
                          Position = startPos\<rparr>, l)
            else scanEscapedEcho_loop startPos start (advance l))
      else (Inl \<lparr>Message = ''Unclosed echo'', ErrPosition = startPos\<rparr>, l))"
  by pat_completeness auto
termination
  by (relation "measure (\<lambda>(startPos, start, l). remaining l)") auto

definition scanEscapedEcho :: "Position \<Rightarrow> Lexer \<Rightarrow> (LexerError + Token) \<times> Lexer" where
  "scanEscapedEcho startPos l =
     (let l = skipWhitespace (advanceN 2 l) in scanEscapedEcho_loop startPos (pos l) l)"

text \<open>
  The loop of \<open>scanDirectiveArgs\<close>: it runs while input is left and \<open>depth > 0\<close>, and advances
  only while \<open>depth\<close> stays positive, so that it stops on the closing parenthesis.
\<close>

function scanDirectiveArgs_loop :: "int \<Rightarrow> bool \<Rightarrow> char \<Rightarrow> Lexer \<Rightarrow> int \<times> Lexer" where
  "scanDirectiveArgs_loop depth inString stringChar l =
     (if pos l < length (input l) \<and> 0 < depth
      then
        let ch = input l ! pos l;
            quote = ((ch = CHR 0x22 \<or> ch = CHR 0x27)
                     \<and> (pos l = 0 \<or> input l ! (pos l - 1) \<noteq> CHR 0x5C));
            stringChar' = (if quote \<and> \<not> inString then ch else stringChar);
            inString' = (if quote then (if \<not> inString then True
                                        else if ch = stringChar then False else inString)
                         else inString);
            depth' = (if \<not> inString'
                      then (if ch = CHR ''('' then depth + 1
                            else if ch = CHR '')'' then depth - 1 else depth)
                      else depth);
            l' = (if 0 < depth' then advance l else l)
        in scanDirectiveArgs_loop depth' inString' stringChar' l'
      else (depth, l))"
  by pat_completeness auto
termination
  by (relation "measure (\<lambda>(depth, inString, stringChar, l).
                   2 * remaining l + (if 0 < depth then 1 else 0))")
     (auto simp: Let_def remaining_def advance_def)

definition scanDirectiveArgs :: "Lexer \<Rightarrow> (LexerError + string) \<times> Lexer" where
  "scanDirectiveArgs l =
     (let l = advance l;
          start = pos l;
          (depth, l) = scanDirectiveArgs_loop 1 False (CHR 0x00) l
      in if depth \<noteq> 0
         then (Inl \<lparr>Message = ''Unclosed parenthesis in directive arguments'',
                    ErrPosition = here l\<rparr>, l)
         else let args = slice (input l) start (pos l);
                  l = advance l
              in (Inr (TrimSpace args), l))"

function scanDirective_name :: "Lexer \<Rightarrow> Lexer" where
  "scanDirective_name l =
     (if pos l < length (input l)
         \<and> (IsLetter (input l ! pos l) \<or> IsDigit (input l ! pos l) \<or> input l ! pos l = CHR ''_'')
      then scanDirective_name (advance l) else l)"
  by pat_completeness auto
termination
  by (relation "measure remaining") auto

definition scanDirective :: "Position \<Rightarrow> Lexer \<Rightarrow> (LexerError + Token) \<times> Lexer" where
  "scanDirective startPos l =
     (let l = advance l;
          start = pos l;
          l = scanDirective_name l;
          name = slice (input l) start (pos l)
      in if name = ''verbatim''
         then (Inr \<lparr>Type = TOKEN_VERBATIM_START, Value = name, Args = [],
                    Position = startPos\<rparr>, l\<lparr>inVerbatim := True\<rparr>)
         else if pos l < length (input l) \<and> input l ! pos l = CHR ''(''
         then (case scanDirectiveArgs l of
                 (Inl err, l) \<Rightarrow> (Inl err, l)
               | (Inr args, l) \<Rightarrow>
                   (Inr \<lparr>Type = TOKEN_DIRECTIVE_ARGS, Value = name, Args = args,
                         Position = startPos\<rparr>, l))
         else (Inr \<lparr>Type = TOKEN_DIRECTIVE, Value = name, Args = [],
                    Position = startPos\<rparr>, l))"

text \<open>
  \<open>scanVerbatimContent\<close> appends the text token to \<open>l.tokens\<close> itself and returns the
  \<open>TOKEN_VERBATIM_END\<close> token.
\<close>

function scanVerbatimContent_loop :: "Position \<Rightarrow> nat \<Rightarrow> Lexer \<Rightarrow> (LexerError + Token) \<times> Lexer" where
  "scanVerbatimContent_loop startPos start l =
     (if pos l < length (input l)
      then (if matchString l ''@endverbatim''
            then let content = slice (input l) start (pos l);
                     l = advanceN 12 l;
                     l = l\<lparr>inVerbatim := False\<rparr>;
                     l = (if content \<noteq> []
                          then l\<lparr>tokens := tokens l @ [\<lparr>Type = TOKEN_TEXT, Value = content,
                                                         Args = [], Position = startPos\<rparr>]\<rparr>
                          else l)
                 in (Inr \<lparr>Type = TOKEN_VERBATIM_END, Value = ''endverbatim'', Args = [],
                          Position = \<lparr>Line = line l, Column = column l - 12,
                                      Offset = int (pos l) - 12\<rparr>\<rparr>, l)
            else scanVerbatimContent_loop startPos start (advance l))
      else (Inl \<lparr>Message = ''Unclosed @verbatim block'', ErrPosition = startPos\<rparr>, l))"
  by pat_completeness auto
termination
  by (relation "measure (\<lambda>(startPos, start, l). remaining l)") auto

definition scanVerbatimContent :: "Position \<Rightarrow> Lexer \<Rightarrow> (LexerError + Token) \<times> Lexer" where
  "scanVerbatimContent startPos l = scanVerbatimContent_loop startPos (pos l) l"

definition atDirective :: "Lexer \<Rightarrow> bool" where
  \<comment> \<open>the test \<open>l.current() == '@' && l.pos+1 < len(l.input) && (IsLetter(...) || ... == '_')\<close>\<close>
  "atDirective l =
     (current l = CHR ''@'' \<and> pos l + 1 < length (input l)
      \<and> (IsLetter (input l ! (pos l + 1)) \<or> input l ! (pos l + 1) = CHR ''_''))"

definition atSpecial :: "Lexer \<Rightarrow> bool" where
  \<comment> \<open>the two stop tests of the loop of \<open>scanText\<close>\<close>
  "atSpecial l =
     ((matchString l ''{{'' \<or> matchString l ''{!!'' \<or> matchString l ''@@'') \<or> atDirective l)"

function scanText_loop :: "Lexer \<Rightarrow> Lexer" where
  "scanText_loop l =
     (if pos l < length (input l)
      then (if atSpecial l then l else scanText_loop (advance l))
      else l)"
  by pat_completeness auto
termination
  by (relation "measure remaining") auto

declare skipWhitespace.simps [simp del] scanComment_loop.simps [simp del]
  scanRawEcho_loop.simps [simp del] scanEscapedEcho_loop.simps [simp del]
  scanDirectiveArgs_loop.simps [simp del] scanDirective_name.simps [simp del]
  scanVerbatimContent_loop.simps [simp del] scanText_loop.simps [simp del]


lemma scanText_loop_stops:
  "\<not> (pos (scanText_loop l) < length (input (scanText_loop l)) \<and> \<not> atSpecial (scanText_loop l))"
proof (induction l rule: scanText_loop.induct)
  case (1 l)
  show ?case
  proof (cases "pos l < length (input l) \<and> \<not> atSpecial l")
    case True
    then have "scanText_loop l = scanText_loop (advance l)"
      by (subst scanText_loop.simps) simp
    with 1 True show ?thesis by simp
  next
    case False
    then have "scanText_loop l = l"
      by (subst scanText_loop.simps) auto
    with False show ?thesis by simp
  qed
qed

function nextToken :: "Lexer \<Rightarrow> (LexerError + Token) \<times> Lexer"
  and scanText :: "Position \<Rightarrow> Lexer \<Rightarrow> (LexerError + Token) \<times> Lexer" where
  "nextToken l =
     (if length (input l) \<le> pos l
      then (Inr \<lparr>Type = TOKEN_EOF, Value = [], Args = [], Position = zeroPosition\<rparr>, l)
      else
        let startPos = here l
        in if inVerbatim l then scanVerbatimContent startPos l
           else if matchString l ''{{--'' then scanComment startPos l
           else if matchString l ''{!!'' then scanRawEcho startPos l
           else if matchString l ''{{'' then scanEscapedEcho startPos l
           else if matchString l ''@@''
           then (Inr \<lparr>Type = TOKEN_TEXT, Value = ''@'', Args = [], Position = startPos\<rparr>,
                 advance (advance l))
           else if atDirective l then scanDirective startPos l
           else scanText startPos l)"
| "scanText startPos l =
     (let start = pos l;
          l = scanText_loop l;
          content = slice (input l) start (pos l)
      in if content = [] then nextToken l
         else (Inr \<lparr>Type = TOKEN_TEXT, Value = content, Args = [], Position = startPos\<rparr>, l))"
  by pat_completeness auto
termination
proof (relation "measure (\<lambda>x. case x of
          Inl l \<Rightarrow> (if pos l < length (input l) \<and> \<not> atSpecial l then 2 else 0)
        | Inr (startPos, l) \<Rightarrow> 1)", goal_cases)
  case 1
  show ?case by simp
next
  case (2 l startPos)
  then show ?case by (auto simp: atSpecial_def)
next
  case (3 startPos l start l' content)
  then show ?case using scanText_loop_stops [of l] by auto
qed

declare nextToken.simps [simp del] scanText.simps [simp del]


subsection \<open>Every successful \<open>nextToken\<close> consumes input\<close>

definition lex_le :: "Lexer \<Rightarrow> Lexer \<Rightarrow> bool" where
  "lex_le l l' = (input l' = input l \<and> pos l \<le> pos l')"

lemma lex_le_refl [simp]: "lex_le l l"
  by (simp add: lex_le_def)

lemma lex_le_trans: "lex_le a b \<Longrightarrow> lex_le b c \<Longrightarrow> lex_le a c"
  by (simp add: lex_le_def)

lemma lex_le_advance [simp]: "lex_le l (advance l)"
  by (simp add: lex_le_def advance_def)

lemma lex_le_advanceN [simp]: "lex_le l (advanceN n l)"
  by (induction n arbitrary: l) (auto intro: lex_le_trans [OF lex_le_advance])

lemma advanceN_input [simp]: "input (advanceN n l) = input l"
  using lex_le_advanceN [of l n] by (simp add: lex_le_def)

lemma advanceN_pos:
  "pos l + n \<le> length (input l) \<Longrightarrow> pos (advanceN n l) = pos l + n"
  by (induction n arbitrary: l) (auto simp: advance_pos)

lemma matchString_bound: "matchString l s \<Longrightarrow> pos l + length s \<le> length (input l)"
  by (auto simp: matchString_def split: if_splits)

lemma lex_le_skipWhitespace [simp]: "lex_le l (skipWhitespace l)"
proof (induction l rule: skipWhitespace.induct)
  case (1 l)
  then show ?case
    by (subst skipWhitespace.simps) (auto intro: lex_le_trans [OF lex_le_advance])
qed

lemma lex_le_scanDirective_name [simp]: "lex_le l (scanDirective_name l)"
proof (induction l rule: scanDirective_name.induct)
  case (1 l)
  then show ?case
    by (subst scanDirective_name.simps) (auto intro: lex_le_trans [OF lex_le_advance])
qed

lemma lex_le_scanText_loop [simp]: "lex_le l (scanText_loop l)"
proof (induction l rule: scanText_loop.induct)
  case (1 l)
  then show ?case
    by (subst scanText_loop.simps) (auto intro: lex_le_trans [OF lex_le_advance])
qed

lemma lex_le_scanComment_loop: "lex_le l (snd (scanComment_loop startPos start l))"
proof (induction startPos start l rule: scanComment_loop.induct)
  case (1 startPos start l)
  then show ?case
    by (subst scanComment_loop.simps)
       (auto simp: Let_def intro: lex_le_trans [OF lex_le_advance])
qed

lemma lex_le_scanRawEcho_loop: "lex_le l (snd (scanRawEcho_loop startPos start l))"
proof (induction startPos start l rule: scanRawEcho_loop.induct)
  case (1 startPos start l)
  then show ?case
    by (subst scanRawEcho_loop.simps)
       (auto simp: Let_def intro: lex_le_trans [OF lex_le_advance])
qed

lemma lex_le_scanEscapedEcho_loop: "lex_le l (snd (scanEscapedEcho_loop startPos start l))"
proof (induction startPos start l rule: scanEscapedEcho_loop.induct)
  case (1 startPos start l)
  then show ?case
    by (subst scanEscapedEcho_loop.simps)
       (auto simp: Let_def intro: lex_le_trans [OF lex_le_advance])
qed

lemma lex_le_scanDirectiveArgs_loop:
  "lex_le l (snd (scanDirectiveArgs_loop depth inString stringChar l))"
proof (induction depth inString stringChar l rule: scanDirectiveArgs_loop.induct)
  case (1 depth inString stringChar l)
  show ?case
  proof (cases "pos l < length (input l) \<and> 0 < depth")
    case True
    define ch where "ch = input l ! pos l"
    define quote where "quote = ((ch = CHR 0x22 \<or> ch = CHR 0x27)
                     \<and> (pos l = 0 \<or> input l ! (pos l - 1) \<noteq> CHR 0x5C))"
    define stringChar' where "stringChar' = (if quote \<and> \<not> inString then ch else stringChar)"
    define inString' where "inString' = (if quote then (if \<not> inString then True
                                        else if ch = stringChar then False else inString)
                         else inString)"
    define depth' where "depth' = (if \<not> inString'
                      then (if ch = CHR ''('' then depth + 1
                            else if ch = CHR '')'' then depth - 1 else depth)
                      else depth)"
    define l' where "l' = (if 0 < depth' then advance l else l)"
    have eq: "scanDirectiveArgs_loop depth inString stringChar l
                = scanDirectiveArgs_loop depth' inString' stringChar' l'"
      using True
      by (subst scanDirectiveArgs_loop.simps)
         (simp only: Let_def ch_def quote_def stringChar'_def inString'_def depth'_def l'_def
                     if_True simp_thms)
    have "lex_le l' (snd (scanDirectiveArgs_loop depth' inString' stringChar' l'))"
      by (rule 1 [OF True ch_def quote_def stringChar'_def inString'_def depth'_def l'_def])
    moreover have "lex_le l l'" by (simp add: l'_def)
    ultimately show ?thesis unfolding eq by (rule lex_le_trans [rotated])
  next
    case False
    then show ?thesis by (subst scanDirectiveArgs_loop.simps) auto
  qed
qed

lemma lex_le_scanVerbatimContent_loop:
  "lex_le l (snd (scanVerbatimContent_loop startPos start l))"
proof (induction startPos start l rule: scanVerbatimContent_loop.induct)
  case (1 startPos start l)
  have aux: "\<And>l. lex_le l (advanceN 12 l)" by (rule lex_le_advanceN)
  show ?case
    using 1 aux [of l] advance_pos [of l]
    by (subst scanVerbatimContent_loop.simps)
       (auto simp: Let_def lex_le_def simp del: advanceN.simps)
qed

text \<open>A successful scan of a closing marker ends past that marker.\<close>

lemma scanComment_loop_progress:
  "scanComment_loop startPos start l = (Inr t, l') \<Longrightarrow> pos l + 4 \<le> pos l'"
proof (induction startPos start l rule: scanComment_loop.induct)
  case (1 startPos start l)
  show ?case
  proof (cases "pos l < length (input l)")
    case True
    show ?thesis
    proof (cases "matchString l ''--}}''")
      case m: True
      have "pos (advanceN 4 l) = pos l + 4"
        using matchString_bound [OF m] by (intro advanceN_pos) simp
      with 1(2) True m show ?thesis
        by (subst (asm) scanComment_loop.simps) (auto simp: Let_def simp del: advanceN.simps)
    next
      case m: False
      have "scanComment_loop startPos start l = scanComment_loop startPos start (advance l)"
        using True m by (subst scanComment_loop.simps) simp
      with 1 True m have "pos (advance l) + 4 \<le> pos l'" by simp
      then show ?thesis using True by (simp add: advance_pos)
    qed
  next
    case False
    with 1(2) show ?thesis by (subst (asm) scanComment_loop.simps) simp
  qed
qed

lemma scanRawEcho_loop_progress:
  "scanRawEcho_loop startPos start l = (Inr t, l') \<Longrightarrow> pos l + 3 \<le> pos l'"
proof (induction startPos start l rule: scanRawEcho_loop.induct)
  case (1 startPos start l)
  show ?case
  proof (cases "pos l < length (input l)")
    case True
    show ?thesis
    proof (cases "matchString l ''!!}''")
      case m: True
      have "pos (advanceN 3 l) = pos l + 3"
        using matchString_bound [OF m] by (intro advanceN_pos) simp
      with 1(2) True m show ?thesis
        by (subst (asm) scanRawEcho_loop.simps) (auto simp: Let_def simp del: advanceN.simps)
    next
      case m: False
      have "scanRawEcho_loop startPos start l = scanRawEcho_loop startPos start (advance l)"
        using True m by (subst scanRawEcho_loop.simps) simp
      with 1 True m have "pos (advance l) + 3 \<le> pos l'" by simp
      then show ?thesis using True by (simp add: advance_pos)
    qed
  next
    case False
    with 1(2) show ?thesis by (subst (asm) scanRawEcho_loop.simps) simp
  qed
qed

lemma scanEscapedEcho_loop_progress:
  "scanEscapedEcho_loop startPos start l = (Inr t, l') \<Longrightarrow> pos l + 2 \<le> pos l'"
proof (induction startPos start l rule: scanEscapedEcho_loop.induct)
  case (1 startPos start l)
  show ?case
  proof (cases "pos l < length (input l)")
    case True
    show ?thesis
    proof (cases "matchString l ''}}''")
      case m: True
      have "pos (advanceN 2 l) = pos l + 2"
        using matchString_bound [OF m] by (intro advanceN_pos) simp
      with 1(2) True m show ?thesis
        by (subst (asm) scanEscapedEcho_loop.simps) (auto simp: Let_def simp del: advanceN.simps)
    next
      case m: False
      have "scanEscapedEcho_loop startPos start l
              = scanEscapedEcho_loop startPos start (advance l)"
        using True m by (subst scanEscapedEcho_loop.simps) simp
      with 1 True m have "pos (advance l) + 2 \<le> pos l'" by simp
      then show ?thesis using True by (simp add: advance_pos)
    qed
  next
    case False
    with 1(2) show ?thesis by (subst (asm) scanEscapedEcho_loop.simps) simp
  qed
qed

lemma scanVerbatimContent_loop_progress:
  "scanVerbatimContent_loop startPos start l = (Inr t, l') \<Longrightarrow> pos l + 12 \<le> pos l'"
proof (induction startPos start l rule: scanVerbatimContent_loop.induct)
  case (1 startPos start l)
  show ?case
  proof (cases "pos l < length (input l)")
    case True
    show ?thesis
    proof (cases "matchString l ''@endverbatim''")
      case m: True
      have "pos (advanceN 12 l) = pos l + 12"
        using matchString_bound [OF m] by (intro advanceN_pos) simp
      with 1(2) True m show ?thesis
        by (subst (asm) scanVerbatimContent_loop.simps)
           (auto simp: Let_def simp del: advanceN.simps split: if_splits)
    next
      case m: False
      have "scanVerbatimContent_loop startPos start l
              = scanVerbatimContent_loop startPos start (advance l)"
        using True m by (subst scanVerbatimContent_loop.simps) simp
      with 1 True m have "pos (advance l) + 12 \<le> pos l'" by simp
      then show ?thesis using True by (simp add: advance_pos)
    qed
  next
    case False
    with 1(2) show ?thesis by (subst (asm) scanVerbatimContent_loop.simps) simp
  qed
qed


lemma lex_le_scanDirectiveArgs: "lex_le l (snd (scanDirectiveArgs l))"
proof -
  obtain d l1 where r: "scanDirectiveArgs_loop 1 False (CHR 0x00) (advance l) = (d, l1)"
    by (cases "scanDirectiveArgs_loop 1 False (CHR 0x00) (advance l)")
  have "lex_le (advance l) l1"
    using lex_le_scanDirectiveArgs_loop [of "advance l" 1 False "CHR 0x00"] r by simp
  then have "lex_le l l1" by (rule lex_le_trans [OF lex_le_advance])
  moreover have "lex_le l1 (advance l1)" by simp
  ultimately show ?thesis
    using r by (auto simp: scanDirectiveArgs_def Let_def intro: lex_le_trans)
qed

lemma lex_le_scanDirective: "lex_le (advance l) (snd (scanDirective startPos l))"
proof -
  define l2 where "l2 = scanDirective_name (advance l)"
  have a: "lex_le (advance l) l2" by (simp add: l2_def)
  have b: "lex_le l2 (snd (scanDirectiveArgs l2))" by (rule lex_le_scanDirectiveArgs)
  have c: "lex_le (advance l) (snd (scanDirectiveArgs l2))" by (rule lex_le_trans [OF a b])
  have d: "lex_le (advance l) (l2\<lparr>inVerbatim := True\<rparr>)" using a by (simp add: lex_le_def)
  show ?thesis
    using a c d
    by (auto simp: scanDirective_def Let_def l2_def [symmetric]
             split: prod.splits sum.splits)
qed

lemma scanText_loop_advances:
  assumes "pos l < length (input l)" and "\<not> atSpecial l"
  shows "pos l < pos (scanText_loop l)"
proof -
  have "scanText_loop l = scanText_loop (advance l)"
    using assms by (subst scanText_loop.simps) simp
  moreover have "lex_le (advance l) (scanText_loop (advance l))" by simp
  ultimately show ?thesis
    using assms(1) by (simp add: lex_le_def advance_pos)
qed

lemma slice_nonempty: "i < j \<Longrightarrow> i < length s \<Longrightarrow> slice s i j \<noteq> []"
  by (simp add: slice_def)

lemma nextToken_progress:
  assumes "pos l < length (input l)" and "nextToken l = (Inr t, l')"
  shows "input l' = input l \<and> pos l < pos l'"
proof -
  have nt: "nextToken l =
        (if inVerbatim l then scanVerbatimContent (here l) l
           else if matchString l ''{{--'' then scanComment (here l) l
           else if matchString l ''{!!'' then scanRawEcho (here l) l
           else if matchString l ''{{'' then scanEscapedEcho (here l) l
           else if matchString l ''@@''
           then (Inr \<lparr>Type = TOKEN_TEXT, Value = ''@'', Args = [], Position = here l\<rparr>,
                 advance (advance l))
           else if atDirective l then scanDirective (here l) l
           else scanText (here l) l)"
    using assms(1) by (subst nextToken.simps) (simp add: Let_def)
  consider (c_verb) "inVerbatim l"
    | (c_comment) "\<not> inVerbatim l" "matchString l ''{{--''"
    | (c_raw) "\<not> inVerbatim l" "\<not> matchString l ''{{--''" "matchString l ''{!!''"
    | (c_echo) "\<not> inVerbatim l" "\<not> matchString l ''{{--''" "\<not> matchString l ''{!!''"
        "matchString l ''{{''"
    | (c_at) "\<not> inVerbatim l" "\<not> matchString l ''{{--''" "\<not> matchString l ''{!!''"
        "\<not> matchString l ''{{''" "matchString l ''@@''"
    | (c_dir) "\<not> inVerbatim l" "\<not> matchString l ''{{--''" "\<not> matchString l ''{!!''"
        "\<not> matchString l ''{{''" "\<not> matchString l ''@@''" "atDirective l"
    | (c_text) "\<not> inVerbatim l" "\<not> matchString l ''{{--''" "\<not> matchString l ''{!!''"
        "\<not> matchString l ''{{''" "\<not> matchString l ''@@''" "\<not> atDirective l"
    by blast
  then show ?thesis
  proof cases
    case c_verb
    then have r: "scanVerbatimContent_loop (here l) (pos l) l = (Inr t, l')"
      using assms(2) nt by (simp add: scanVerbatimContent_def)
    show ?thesis
      using scanVerbatimContent_loop_progress [OF r]
        lex_le_scanVerbatimContent_loop [of l "here l" "pos l"] r
      by (simp add: lex_le_def)
  next
    case c_comment
    then have r: "scanComment_loop (here l) (pos (advanceN 4 l)) (advanceN 4 l) = (Inr t, l')"
      using assms(2) nt by (simp add: scanComment_def Let_def del: advanceN.simps)
    show ?thesis
      using scanComment_loop_progress [OF r] lex_le_advanceN [of l 4]
        lex_le_scanComment_loop [of "advanceN 4 l" "here l" "pos (advanceN 4 l)"] r
      by (simp add: lex_le_def del: advanceN.simps)
  next
    case c_raw
    define l1 where "l1 = skipWhitespace (advanceN 3 l)"
    from c_raw have r: "scanRawEcho_loop (here l) (pos l1) l1 = (Inr t, l')"
      using assms(2) nt by (simp add: scanRawEcho_def Let_def l1_def del: advanceN.simps)
    have "lex_le l l1"
      unfolding l1_def by (rule lex_le_trans [OF lex_le_advanceN lex_le_skipWhitespace])
    then show ?thesis
      using scanRawEcho_loop_progress [OF r]
        lex_le_scanRawEcho_loop [of l1 "here l" "pos l1"] r
      by (simp add: lex_le_def)
  next
    case c_echo
    define l1 where "l1 = skipWhitespace (advanceN 2 l)"
    from c_echo have r: "scanEscapedEcho_loop (here l) (pos l1) l1 = (Inr t, l')"
      using assms(2) nt by (simp add: scanEscapedEcho_def Let_def l1_def del: advanceN.simps)
    have "lex_le l l1"
      unfolding l1_def by (rule lex_le_trans [OF lex_le_advanceN lex_le_skipWhitespace])
    then show ?thesis
      using scanEscapedEcho_loop_progress [OF r]
        lex_le_scanEscapedEcho_loop [of l1 "here l" "pos l1"] r
      by (simp add: lex_le_def)
  next
    case c_at
    then have "l' = advanceN 2 l"
      using assms(2) nt by (simp add: numeral_2_eq_2)
    moreover have "pos (advanceN 2 l) = pos l + 2"
      using matchString_bound [OF c_at(5)] by (intro advanceN_pos) simp
    ultimately show ?thesis by (simp del: advanceN.simps)
  next
    case c_dir
    then have r: "scanDirective (here l) l = (Inr t, l')"
      using assms(2) nt by simp
    show ?thesis
      using lex_le_scanDirective [of l "here l"] r assms(1)
      by (simp add: lex_le_def advance_pos)
  next
    case c_text
    then have ns: "\<not> atSpecial l" by (simp add: atSpecial_def)
    have adv: "pos l < pos (scanText_loop l)"
      by (rule scanText_loop_advances [OF assms(1) ns])
    have inp: "input (scanText_loop l) = input l"
      using lex_le_scanText_loop [of l] by (simp add: lex_le_def)
    have ne: "slice (input (scanText_loop l)) (pos l) (pos (scanText_loop l)) \<noteq> []"
      unfolding inp by (rule slice_nonempty [OF adv assms(1)])
    from c_text have "scanText (here l) l = (Inr t, l')"
      using assms(2) nt by simp
    then have "l' = scanText_loop l"
      using ne by (subst (asm) scanText.simps) (simp add: Let_def)
    then show ?thesis using adv inp by simp
  qed
qed

function Tokenize_loop :: "Lexer \<Rightarrow> LexerError + Lexer" where
  "Tokenize_loop l =
     (if pos l < length (input l)
      then (case nextToken l of
              (Inl err, l') \<Rightarrow> Inl err
            | (Inr token, l') \<Rightarrow>
                Tokenize_loop (if Type token \<noteq> TOKEN_EOF
                               then l'\<lparr>tokens := tokens l' @ [token]\<rparr> else l'))
      else Inr l)"
  by pat_completeness auto
termination
proof (relation "measure remaining", goal_cases)
  case 1
  show ?case by simp
next
  case (2 l x1 l' token)
  then have "nextToken l = (Inr token, l')" by simp
  from nextToken_progress [OF 2(1) this] 2(1)
  show ?case by (auto simp: remaining_def)
qed

declare Tokenize_loop.simps [simp del]

definition Tokenize :: "Lexer \<Rightarrow> LexerError + Token list" where
  "Tokenize l =
     (case Tokenize_loop l of
        Inl err \<Rightarrow> Inl err
      | Inr l \<Rightarrow> Inr (tokens l @ [\<lparr>Type = TOKEN_EOF, Value = [], Args = [], Position = here l\<rparr>]))"

section \<open>More of package strings, fmt and regexp\<close>

abbreviation (input) dq :: string where
  \<comment> \<open>the double quote\<close>
  "dq \<equiv> [CHR 0x22]"

abbreviation (input) sq :: string where
  \<comment> \<open>the single quote\<close>
  "sq \<equiv> [CHR 0x27]"

text \<open>
  \<open>strings.ReplaceAll\<close> replaces the non-overlapping occurrences of \<open>old\<close> from left to
  right. Every call in the engine passes a non-empty literal for \<open>old\<close>; for an empty
  \<open>old\<close> (where Go inserts \<open>new\<close> around every rune) the model returns \<open>s\<close> unchanged.
\<close>

fun ReplaceAll :: "string \<Rightarrow> string \<Rightarrow> string \<Rightarrow> string" where
  "ReplaceAll [] old new = []"
| "ReplaceAll (c # cs) old new =
     (if old \<noteq> [] \<and> prefix old (c # cs)
      then new @ ReplaceAll (drop (length old) (c # cs)) old new
      else c # ReplaceAll cs old new)"

text \<open>\<open>strings.SplitN(s, sep, n)\<close> for \<open>n > 0\<close> and a non-empty \<open>sep\<close>.\<close>

fun SplitN :: "string \<Rightarrow> string \<Rightarrow> nat \<Rightarrow> string list" where
  "SplitN s sep 0 = []"
| "SplitN s sep (Suc 0) = [s]"
| "SplitN s sep (Suc (Suc n)) =
     (case strings_Index s sep of
        None \<Rightarrow> [s]
      | Some m \<Rightarrow> take m s # SplitN (drop (m + length sep) s) sep (Suc n))"

text \<open>\<open>strings.Trim(s, cutset)\<close> for a cutset of ASCII characters.\<close>

definition Trim :: "string \<Rightarrow> string \<Rightarrow> string" where
  "Trim s cutset =
     rev (dropWhile (\<lambda>c. c \<in> set cutset) (rev (dropWhile (\<lambda>c. c \<in> set cutset) s)))"

definition Join :: "string list \<Rightarrow> string \<Rightarrow> string" where
  "Join elems sep = (case elems of [] \<Rightarrow> [] | e # es \<Rightarrow> e @ concat (map (\<lambda>x. sep @ x) es))"

text \<open>\<open>%d\<close> of \<open>fmt.Sprintf\<close>.\<close>

definition digit_char :: "nat \<Rightarrow> char" where
  "digit_char d = char_of (48 + d)"

fun itoa_nat :: "nat \<Rightarrow> string" where
  "itoa_nat n = (if n < 10 then [digit_char n] else itoa_nat (n div 10) @ [digit_char (n mod 10)])"

declare itoa_nat.simps [simp del]

definition itoa :: "int \<Rightarrow> string" where
  "itoa i = (if i < 0 then CHR ''-'' # itoa_nat (nat (- i)) else itoa_nat (nat i))"

text \<open>
  The character classes of the regular expressions the compiler uses. In Go's syntax
  \<open>\s\<close> is \<open>[\t\n\f\r ]\<close> and \<open>\d\<close> is \<open>[0-9]\<close>.
\<close>

definition reSpace :: "char \<Rightarrow> bool" where
  "reSpace c = (c = CHR 0x09 \<or> c = CHR 0x0A \<or> c = CHR 0x0C \<or> c = CHR 0x0D \<or> c = CHR 0x20)"

definition reDigit :: "char \<Rightarrow> bool" where
  "reDigit c = (let n = (of_char c :: nat) in 48 \<le> n \<and> n \<le> 57)"

definition identStart :: "char \<Rightarrow> bool" where
  \<comment> \<open>\<open>[a-zA-Z_]\<close>\<close>
  "identStart c = (let n = (of_char c :: nat)
                   in (97 \<le> n \<and> n \<le> 122) \<or> (65 \<le> n \<and> n \<le> 90) \<or> n = 95)"

definition identChar :: "char \<Rightarrow> bool" where
  \<comment> \<open>\<open>[a-zA-Z0-9_]\<close>\<close>
  "identChar c = (identStart c \<or> reDigit c)"

text \<open>
  \<open>regexp.MustCompile(`\$([a-zA-Z_][a-zA-Z0-9_]*)`).ReplaceAllString(expr, ".$1")\<close>:
  the matches are found from left to right, each as long as possible.
\<close>

function replaceDollar :: "string \<Rightarrow> string" where
  "replaceDollar [] = []"
| "replaceDollar (c # cs) =
     (if c = CHR ''$'' \<and> cs \<noteq> [] \<and> identStart (hd cs)
      then ''.'' @ takeWhile identChar cs @ replaceDollar (dropWhile identChar cs)
      else c # replaceDollar cs)"
  by pat_completeness auto
termination
  by (relation "measure length") (auto simp: le_imp_less_Suc length_dropWhile_le)

text \<open>
  \<open>regexp.MustCompile(`\.([a-zA-Z_][a-zA-Z0-9_]*)\[['"]([^'"]+)['"]\]`)\<close>, matched behind a
  dot: the name, the key and the text behind the closing bracket.
\<close>

definition isQuote :: "char \<Rightarrow> bool" where
  "isQuote c = (c = CHR 0x27 \<or> c = CHR 0x22)"

definition matchArray :: "string \<Rightarrow> (string \<times> string \<times> string) option" where
  "matchArray s =
     (if s \<noteq> [] \<and> identStart (hd s)
      then (case dropWhile identChar s of
              b # q # r \<Rightarrow>
                if b = CHR ''['' \<and> isQuote q
                then (case dropWhile (\<lambda>c. \<not> isQuote c) r of
                        q' # b' # rest \<Rightarrow>
                          if takeWhile (\<lambda>c. \<not> isQuote c) r \<noteq> [] \<and> b' = CHR '']''
                          then Some (takeWhile identChar s,
                                     takeWhile (\<lambda>c. \<not> isQuote c) r, rest)
                          else None
                      | _ \<Rightarrow> None)
                else None
            | _ \<Rightarrow> None)
      else None)"

lemma matchArray_length: "matchArray s = Some (name, key, rest) \<Longrightarrow> length rest \<le> length s"
proof -
  assume a: "matchArray s = Some (name, key, rest)"
  then obtain b q r where d: "dropWhile identChar s = b # q # r"
    by (auto simp: matchArray_def split: if_splits list.splits)
  with a obtain q' b' where e: "dropWhile (\<lambda>c. \<not> isQuote c) r = q' # b' # rest"
    by (auto simp: matchArray_def split: if_splits list.splits)
  have "length rest \<le> length (dropWhile (\<lambda>c. \<not> isQuote c) r)" by (simp add: e)
  also have "\<dots> \<le> length r" by (rule length_dropWhile_le)
  also have "\<dots> \<le> length (dropWhile identChar s)" by (simp add: d)
  also have "\<dots> \<le> length s" by (rule length_dropWhile_le)
  finally show ?thesis .
qed

function replaceArray :: "string \<Rightarrow> string" where
  "replaceArray [] = []"
| "replaceArray (c # cs) =
     (if c = CHR ''.''
      then (case matchArray cs of
              Some (name, key, rest) \<Rightarrow>
                ''(index .'' @ name @ '' '' @ dq @ key @ dq @ '')'' @ replaceArray rest
            | None \<Rightarrow> c # replaceArray cs)
      else c # replaceArray cs)"
  by pat_completeness auto
termination
  by (relation "measure length") (auto simp: le_imp_less_Suc dest: matchArray_length)

text \<open>\<open>regexp.MustCompile(`!([^=])`).ReplaceAllString(expr, "not $1")\<close>.\<close>

fun replaceBang :: "string \<Rightarrow> string" where
  "replaceBang (c # d # cs) =
     (if c = CHR ''!'' \<and> d \<noteq> CHR ''=''
      then ''not '' @ [d] @ replaceBang cs
      else c # replaceBang (d # cs))"
| "replaceBang cs = cs"

text \<open>\<open>regexp.MustCompile(`\s+`).ReplaceAllString(expr, " ")\<close>.\<close>

function collapseSpaces :: "string \<Rightarrow> string" where
  "collapseSpaces [] = []"
| "collapseSpaces (c # cs) =
     (if reSpace c then CHR '' '' # collapseSpaces (dropWhile reSpace cs)
      else c # collapseSpaces cs)"
  by pat_completeness auto
termination
  by (relation "measure length") (auto simp: le_imp_less_Suc length_dropWhile_le)

text \<open>
  \<open>regexp.MustCompile(`<\s*=?\s*(\d+)`).FindStringSubmatch(cond)\<close>: the digits of the
  leftmost match, \<open>None\<close> when there is no match. \<open>forEndAt\<close> matches behind a \<open><\<close>.
\<close>

definition forEndAt :: "string \<Rightarrow> string option" where
  "forEndAt s =
     (let r = dropWhile reSpace s;
          r = (case r of c # t \<Rightarrow> if c = CHR ''='' then t else r | [] \<Rightarrow> r);
          r = dropWhile reSpace r;
          ds = takeWhile reDigit r
      in if ds = [] then None else Some ds)"

fun findForEnd :: "string \<Rightarrow> string option" where
  "findForEnd [] = None"
| "findForEnd (c # cs) =
     (if c = CHR ''<''
      then (case forEndAt cs of Some ds \<Rightarrow> Some ds | None \<Rightarrow> findForEnd cs)
      else findForEnd cs)"

section \<open>package compiler: expressions\<close>

definition transformExpression :: "string \<Rightarrow> string" where
  "transformExpression expr =
     (let expr = TrimSpace expr;
          expr = replaceDollar expr;
          expr = ReplaceAll expr ''->'' ''.'';
          expr = replaceArray expr;
          expr = ReplaceAll expr ''!=='' '' ne '';
          expr = ReplaceAll expr ''!='' '' ne '';
          expr = ReplaceAll expr ''==='' '' eq '';
          expr = ReplaceAll expr ''=='' '' eq '';
          expr = ReplaceAll expr ''&&'' '' and '';
          expr = ReplaceAll expr ''||'' '' or '';
          expr = replaceBang expr;
          expr = ReplaceAll expr ''>='' '' gte '';
          expr = ReplaceAll expr ''<='' '' lte '';
          expr = ReplaceAll expr ''>'' '' gt '';
          expr = ReplaceAll expr ''<'' '' lt '';
          expr = collapseSpaces expr
      in TrimSpace expr)"

definition escapeBackticks :: "string \<Rightarrow> string" where
  "escapeBackticks s = ReplaceAll s [CHR 0x60] ([CHR 0x60] @ '' + '' @ dq @ [CHR 0x60] @ dq @ '' + '' @ [CHR 0x60])"

section \<open>package parser: the syntax tree\<close>

text \<open>
  One constructor for each node struct, with the struct's fields in their order after
  the position of \<open>BaseNode\<close> (the node type of \<open>BaseNode\<close> is the constructor). A Go map
  that the code ranges over is an association list: the keys in the order of the list
  stand for the order in which the runtime happens to enumerate them.
\<close>

datatype Node =
    TextNode Position string
  | EchoNode Position string bool
  | CommentNode Position string
  | DirectiveNode Position string string
  | IfNode Position string "Node list" "ElseIfNode list" "ElseNode option"
  | UnlessNode Position string "Node list"
  | SwitchNode Position string "CaseNode list" "DefaultNode option"
  | ForNode Position string string string "Node list"
  | ForeachNode Position string string string "Node list"
  | ForelseNode Position string string string "Node list" "Node list"
  | WhileNode Position string "Node list"
  | SectionNode Position string string "Node list" bool
  | YieldNode Position string string
  | ExtendsNode Position string
  | IncludeNode Position string string string string
  | EachNode Position string string string string
  | PushNode Position string "Node list" bool
  | PrependNode Position string "Node list"
  | StackNode Position string
  | ComponentNode Position string string "Node list" "(string \<times> SlotNode) list"
  | VerbatimNode Position string
  | PhpNode Position string
  | BreakNode Position string
  | ContinueNode Position string
  | IssetNode Position string "Node list"
  | EmptyCheckNode Position string "Node list"
  | AuthNode Position string "Node list"
  | GuestNode Position string "Node list"
  | EnvNode Position "string list" "Node list"
  | ProductionNode Position "Node list"
  | ErrorNode Position string "Node list"
  | OnceNode Position "Node list"
  | ParentNode Position
and ElseIfNode = ElseIfNode Position string "Node list"
and ElseNode = ElseNode Position "Node list"
and CaseNode = CaseNode Position string "Node list"
and DefaultNode = DefaultNode Position "Node list"
and SlotNode = SlotNode Position string "Node list"

record RootNode =
  Children :: "Node list"

section \<open>package parser\<close>

record Parser =
  p_tokens :: "Token list"
  p_pos :: nat
  p_current :: Token

definition zeroToken :: Token where
  "zeroToken = \<lparr>Type = TOKEN_TEXT, Value = [], Args = [], Position = zeroPosition\<rparr>"

definition parser_New :: "Token list \<Rightarrow> Parser" where
  "parser_New toks =
     \<lparr>p_tokens = toks, p_pos = 0,
      p_current = (if 0 < length toks then toks ! 0 else zeroToken)\<rparr>"

definition p_advance :: "Parser \<Rightarrow> Parser" where
  "p_advance p =
     (let p = p\<lparr>p_pos := p_pos p + 1\<rparr>
      in if p_pos p < length (p_tokens p) then p\<lparr>p_current := p_tokens p ! p_pos p\<rparr> else p)"

definition isAtEnd :: "Parser \<Rightarrow> bool" where
  "isAtEnd p = (length (p_tokens p) \<le> p_pos p \<or> Type (p_current p) = TOKEN_EOF)"

definition isDirective :: "Parser \<Rightarrow> string \<Rightarrow> bool" where
  "isDirective p name =
     ((Type (p_current p) = TOKEN_DIRECTIVE \<or> Type (p_current p) = TOKEN_DIRECTIVE_ARGS)
      \<and> Value (p_current p) = name)"

definition trimQuotes :: "string \<Rightarrow> string" where
  "trimQuotes s =
     (let s = TrimSpace s
      in if 2 \<le> length s
            \<and> ((hd s = CHR 0x22 \<and> last s = CHR 0x22) \<or> (hd s = CHR 0x27 \<and> last s = CHR 0x27))
         then slice s 1 (length s - 1) else s)"

text \<open>
  The loop of \<open>splitArgs\<close> over the bytes of \<open>args\<close>; \<open>prev\<close> is the byte before the current
  one (\<open>None\<close> at index 0), \<open>cur\<close> the builder, \<open>result\<close> the parts found so far.
\<close>

fun splitArgs_loop :: "string \<Rightarrow> char option \<Rightarrow> int \<Rightarrow> bool \<Rightarrow> char \<Rightarrow> string \<Rightarrow> string list
    \<Rightarrow> string list \<times> string" where
  "splitArgs_loop [] prev depth inString stringChar cur result = (result, cur)"
| "splitArgs_loop (ch # rest) prev depth inString stringChar cur result =
     (let quote = ((ch = CHR 0x22 \<or> ch = CHR 0x27) \<and> (prev = None \<or> prev \<noteq> Some (CHR 0x5C)));
          stringChar' = (if quote \<and> \<not> inString then ch else stringChar);
          inString' = (if quote then (if \<not> inString then True
                                      else if ch = stringChar then False else inString)
                       else inString)
      in if \<not> inString' \<and> (ch = CHR ''('' \<or> ch = CHR ''['' \<or> ch = CHR ''{'')
         then splitArgs_loop rest (Some ch) (depth + 1) inString' stringChar' (cur @ [ch]) result
         else if \<not> inString' \<and> (ch = CHR '')'' \<or> ch = CHR '']'' \<or> ch = CHR ''}'')
         then splitArgs_loop rest (Some ch) (depth - 1) inString' stringChar' (cur @ [ch]) result
         else if \<not> inString' \<and> ch = CHR '','' \<and> depth = 0
         then splitArgs_loop rest (Some ch) depth inString' stringChar' []
                (result @ [TrimSpace cur])
         else splitArgs_loop rest (Some ch) depth inString' stringChar' (cur @ [ch]) result)"

definition splitArgs :: "string \<Rightarrow> string list" where
  "splitArgs args =
     (let (result, cur) = splitArgs_loop args None 0 False (CHR 0x00) [] []
      in if 0 < length cur then result @ [TrimSpace cur] else result)"

definition HasPrefix :: "string \<Rightarrow> string \<Rightarrow> bool" where
  "HasPrefix s p = prefix p s"

definition HasSuffix :: "string \<Rightarrow> string \<Rightarrow> bool" where
  "HasSuffix s p = suffix p s"

definition parseEnvList :: "string \<Rightarrow> string list" where
  "parseEnvList args =
     (let args = TrimSpace args
      in if HasPrefix args ''['' \<and> HasSuffix args '']''
         then map trimQuotes (splitArgs (slice args 1 (length args - 1)))
         else [trimQuotes args])"

text \<open>
  The parser is a recursive descent over the token list. Its recursion is modelled with
  fuel: \<open>None\<close> says that the fuel ran out before the Go function returned. The parameter
  \<open>pn\<close> of a block parser stands for the recursive call \<open>p.parseNode()\<close>; a loop takes as
  fuel a bound on its number of passes. No parse function constructs an error, so there
  is no error result.
\<close>

type_synonym node_parser = "Parser \<Rightarrow> (Node option \<times> Parser) option"

definition loopFuel :: "Parser \<Rightarrow> nat" where
  \<comment> \<open>one more than the number of tokens from the current one on\<close>
  "loopFuel p = length (p_tokens p) - p_pos p + 1"

definition appendChild :: "Node list \<Rightarrow> Node option \<Rightarrow> Node list" where
  \<comment> \<open>\<open>if child != nil { children = append(children, child) }\<close>\<close>
  "appendChild children child = (case child of None \<Rightarrow> children | Some n \<Rightarrow> children @ [n])"

text \<open>
  The loop \<open>for !p.isAtEnd() && !stop { child := p.parseNode(); append }\<close> that nearly
  every block parser runs, \<open>stop\<close> being its test for the block's terminators.
\<close>

fun parseChildren :: "node_parser \<Rightarrow> (Parser \<Rightarrow> bool) \<Rightarrow> nat \<Rightarrow> Node list \<Rightarrow> Parser
    \<Rightarrow> (Node list \<times> Parser) option" where
  "parseChildren pn stop k children p =
     (if \<not> isAtEnd p \<and> \<not> stop p
      then (case k of
              0 \<Rightarrow> None
            | Suc k' \<Rightarrow>
                (case pn p of
                   None \<Rightarrow> None
                 | Some (child, p) \<Rightarrow> parseChildren pn stop k' (appendChild children child) p))
      else Some (children, p))"

declare parseChildren.simps [simp del]

definition parseBlock :: "node_parser \<Rightarrow> string \<Rightarrow> Parser \<Rightarrow> (Node list \<times> Parser) option" where
  \<comment> \<open>the children up to the directive \<open>endName\<close>, which is consumed when it is there\<close>
  "parseBlock pn endName p =
     (case parseChildren pn (\<lambda>p. isDirective p endName) (loopFuel p) [] p of
        None \<Rightarrow> None
      | Some (children, p) \<Rightarrow>
          Some (children, if isDirective p endName then p_advance p else p))"

fun parseIf_loop :: "node_parser \<Rightarrow> nat \<Rightarrow> Node list \<Rightarrow> ElseIfNode list \<Rightarrow> ElseNode option
    \<Rightarrow> Parser \<Rightarrow> ((Node list \<times> ElseIfNode list \<times> ElseNode option) \<times> Parser) option" where
  "parseIf_loop pn k children elseifs els p =
     (if isAtEnd p then Some ((children, elseifs, els), p)
      else
        (case k of
           0 \<Rightarrow> None
         | Suc k' \<Rightarrow>
             if isDirective p ''elseif''
             then
               let elseifToken = p_current p;
                   p = p_advance p
               in (case parseChildren pn
                          (\<lambda>p. isDirective p ''elseif'' \<or> isDirective p ''else''
                                \<or> isDirective p ''endif'') (loopFuel p) [] p of
                     None \<Rightarrow> None
                   | Some (ch, p) \<Rightarrow>
                       parseIf_loop pn k' children
                         (elseifs @ [ElseIfNode (Position elseifToken) (Args elseifToken) ch])
                         els p)
             else if isDirective p ''else''
             then
               let elseToken = p_current p;
                   p = p_advance p
               in (case parseChildren pn (\<lambda>p. isDirective p ''endif'') (loopFuel p) [] p of
                     None \<Rightarrow> None
                   | Some (ch, p) \<Rightarrow>
                       parseIf_loop pn k' children elseifs
                         (Some (ElseNode (Position elseToken) ch)) p)
             else if isDirective p ''endif''
             then Some ((children, elseifs, els), p_advance p)
             else if length elseifs = 0 \<and> els = None
             then (case pn p of
                     None \<Rightarrow> None
                   | Some (child, p) \<Rightarrow>
                       parseIf_loop pn k' (appendChild children child) elseifs els p)
             else parseIf_loop pn k' children elseifs els p))"

declare parseIf_loop.simps [simp del]

definition parseIf :: "node_parser \<Rightarrow> Position \<Rightarrow> string \<Rightarrow> Parser \<Rightarrow> (Node option \<times> Parser) option" where
  "parseIf pn tpos condition p =
     (case parseIf_loop pn (loopFuel p) [] [] None p of
        None \<Rightarrow> None
      | Some ((children, elseifs, els), p) \<Rightarrow>
          Some (Some (IfNode tpos condition children elseifs els), p))"

definition parseUnless :: "node_parser \<Rightarrow> Position \<Rightarrow> string \<Rightarrow> Parser \<Rightarrow> (Node option \<times> Parser) option" where
  "parseUnless pn tpos condition p =
     (case parseBlock pn ''endunless'' p of
        None \<Rightarrow> None
      | Some (children, p) \<Rightarrow> Some (Some (UnlessNode tpos condition children), p))"

text \<open>
  The loop of \<open>parseSwitch\<close>; \<open>cur\<close> is \<open>currentCase\<close>, \<open>dflt\<close> is \<open>node.Default\<close>.
\<close>

fun parseSwitch_loop :: "node_parser \<Rightarrow> nat \<Rightarrow> CaseNode list \<Rightarrow> CaseNode option
    \<Rightarrow> DefaultNode option \<Rightarrow> Parser
    \<Rightarrow> ((CaseNode list \<times> CaseNode option \<times> DefaultNode option) \<times> Parser) option" where
  "parseSwitch_loop pn k cases cur dflt p =
     (if \<not> isAtEnd p \<and> \<not> isDirective p ''endswitch''
      then
        (case k of
           0 \<Rightarrow> None
         | Suc k' \<Rightarrow>
             if isDirective p ''case''
             then
               let cases = (case cur of None \<Rightarrow> cases | Some cn \<Rightarrow> cases @ [cn]);
                   caseToken = p_current p;
                   p = p_advance p
               in parseSwitch_loop pn k' cases
                    (Some (CaseNode (Position caseToken) (Args caseToken) [])) dflt p
             else if isDirective p ''default''
             then
               let cases = (case cur of None \<Rightarrow> cases | Some cn \<Rightarrow> cases @ [cn]);
                   defaultToken = p_current p;
                   p = p_advance p
               in parseSwitch_loop pn k' cases None
                    (Some (DefaultNode (Position defaultToken) [])) p
             else if isDirective p ''break''
             then parseSwitch_loop pn k' cases cur dflt (p_advance p)
             else
               (case pn p of
                  None \<Rightarrow> None
                | Some (child, p) \<Rightarrow>
                    (case child of
                       None \<Rightarrow> parseSwitch_loop pn k' cases cur dflt p
                     | Some n \<Rightarrow>
                         (case dflt of
                            Some (DefaultNode dp dch) \<Rightarrow>
                              parseSwitch_loop pn k' cases cur
                                (Some (DefaultNode dp (dch @ [n]))) p
                          | None \<Rightarrow>
                              (case cur of
                                 Some (CaseNode cp cv cch) \<Rightarrow>
                                   parseSwitch_loop pn k' cases
                                     (Some (CaseNode cp cv (cch @ [n]))) dflt p
                               | None \<Rightarrow> parseSwitch_loop pn k' cases cur dflt p)))))
      else Some ((cases, cur, dflt), p))"

declare parseSwitch_loop.simps [simp del]

definition parseSwitch :: "node_parser \<Rightarrow> Position \<Rightarrow> string \<Rightarrow> Parser \<Rightarrow> (Node option \<times> Parser) option" where
  "parseSwitch pn tpos expression p =
     (case parseSwitch_loop pn (loopFuel p) [] None None p of
        None \<Rightarrow> None
      | Some ((cases, cur, dflt), p) \<Rightarrow>
          let cases = (case cur of None \<Rightarrow> cases | Some cn \<Rightarrow> cases @ [cn]);
              p = (if isDirective p ''endswitch'' then p_advance p else p)
          in Some (Some (SwitchNode tpos expression cases dflt), p))"

definition parseFor :: "node_parser \<Rightarrow> Position \<Rightarrow> string \<Rightarrow> Parser \<Rightarrow> (Node option \<times> Parser) option" where
  "parseFor pn tpos args p =
     (let parts = SplitN args '';'' 3;
          init = (if 1 \<le> length parts then TrimSpace (parts ! 0) else []);
          cond = (if 2 \<le> length parts then TrimSpace (parts ! 1) else []);
          post = (if 3 \<le> length parts then TrimSpace (parts ! 2) else [])
      in case parseBlock pn ''endfor'' p of
           None \<Rightarrow> None
         | Some (children, p) \<Rightarrow> Some (Some (ForNode tpos init cond post children), p))"

definition parseForeachArgs :: "string \<Rightarrow> string \<times> string \<times> string" where
  \<comment> \<open>the fields \<open>Items\<close>, \<open>Key\<close> and \<open>Value\<close> it assigns\<close>
  "parseForeachArgs args =
     (let parts = SplitN args '' as '' 2;
          items = (if 1 \<le> length parts then TrimSpace (parts ! 0) else [])
      in if 2 \<le> length parts
         then
           let valuePart = TrimSpace (parts ! 1)
           in if Contains valuePart ''=>''
              then let kvParts = SplitN valuePart ''=>'' 2
                   in (items, TrimSpace (kvParts ! 0), TrimSpace (kvParts ! 1))
              else (items, [], valuePart)
         else (items, [], []))"

definition parseForeach :: "node_parser \<Rightarrow> Position \<Rightarrow> string \<Rightarrow> Parser \<Rightarrow> (Node option \<times> Parser) option" where
  "parseForeach pn tpos args p =
     (let (items, key, val) = parseForeachArgs args
      in case parseBlock pn ''endforeach'' p of
           None \<Rightarrow> None
         | Some (children, p) \<Rightarrow> Some (Some (ForeachNode tpos items key val children), p))"

fun parseForelse_loop :: "node_parser \<Rightarrow> nat \<Rightarrow> bool \<Rightarrow> Node list \<Rightarrow> Node list \<Rightarrow> Parser
    \<Rightarrow> ((Node list \<times> Node list) \<times> Parser) option" where
  "parseForelse_loop pn k inEmpty children emptyChildren p =
     (if \<not> isAtEnd p \<and> \<not> isDirective p ''endforelse''
      then
        (case k of
           0 \<Rightarrow> None
         | Suc k' \<Rightarrow>
             if isDirective p ''empty''
             then parseForelse_loop pn k' True children emptyChildren (p_advance p)
             else
               (case pn p of
                  None \<Rightarrow> None
                | Some (child, p) \<Rightarrow>
                    if inEmpty
                    then parseForelse_loop pn k' inEmpty children
                           (appendChild emptyChildren child) p
                    else parseForelse_loop pn k' inEmpty (appendChild children child)
                           emptyChildren p))
      else Some ((children, emptyChildren), p))"

declare parseForelse_loop.simps [simp del]

definition parseForelse :: "node_parser \<Rightarrow> Position \<Rightarrow> string \<Rightarrow> Parser \<Rightarrow> (Node option \<times> Parser) option" where
  "parseForelse pn tpos args p =
     (let (items, key, val) = parseForeachArgs args
      in case parseForelse_loop pn (loopFuel p) False [] [] p of
           None \<Rightarrow> None
         | Some ((children, emptyChildren), p) \<Rightarrow>
             Some (Some (ForelseNode tpos items key val children emptyChildren),
                   if isDirective p ''endforelse'' then p_advance p else p))"

definition parseWhile :: "node_parser \<Rightarrow> Position \<Rightarrow> string \<Rightarrow> Parser \<Rightarrow> (Node option \<times> Parser) option" where
  "parseWhile pn tpos condition p =
     (case parseBlock pn ''endwhile'' p of
        None \<Rightarrow> None
      | Some (children, p) \<Rightarrow> Some (Some (WhileNode tpos condition children), p))"

definition parseSection :: "node_parser \<Rightarrow> Position \<Rightarrow> string \<Rightarrow> Parser \<Rightarrow> (Node option \<times> Parser) option" where
  "parseSection pn tpos args p =
     (let parts = splitArgs args;
          name = (if 1 \<le> length parts then trimQuotes (parts ! 0) else [])
      in if 2 \<le> length parts
         then Some (Some (SectionNode tpos name (trimQuotes (parts ! 1)) [] False), p)
         else
           (case parseChildren pn (\<lambda>p. isDirective p ''endsection'' \<or> isDirective p ''show'')
                   (loopFuel p) [] p of
              None \<Rightarrow> None
            | Some (children, p) \<Rightarrow>
                if isDirective p ''show''
                then Some (Some (SectionNode tpos name [] children True), p_advance p)
                else if isDirective p ''endsection''
                then Some (Some (SectionNode tpos name [] children False), p_advance p)
                else Some (Some (SectionNode tpos name [] children False), p)))"

definition parseYield :: "Position \<Rightarrow> string \<Rightarrow> Node" where
  "parseYield tpos args =
     (let parts = splitArgs args
      in YieldNode tpos (if 1 \<le> length parts then trimQuotes (parts ! 0) else [])
           (if 2 \<le> length parts then trimQuotes (parts ! 1) else []))"

definition parseInclude :: "Position \<Rightarrow> string \<Rightarrow> string \<Rightarrow> Node" where
  "parseInclude tpos variant args =
     (let parts = splitArgs args
      in if variant = ''include'' \<or> variant = ''includeIf''
         then IncludeNode tpos variant
                (if 1 \<le> length parts then trimQuotes (parts ! 0) else [])
                (if 2 \<le> length parts then parts ! 1 else []) []
         else if variant = ''includeWhen'' \<or> variant = ''includeUnless''
         then IncludeNode tpos variant
                (if 2 \<le> length parts then trimQuotes (parts ! 1) else [])
                (if 3 \<le> length parts then parts ! 2 else [])
                (if 1 \<le> length parts then parts ! 0 else [])
         else if variant = ''includeFirst''
         then IncludeNode tpos variant
                (if 1 \<le> length parts then parts ! 0 else [])
                (if 2 \<le> length parts then parts ! 1 else []) []
         else IncludeNode tpos variant [] [] [])"

definition parseEach :: "Position \<Rightarrow> string \<Rightarrow> Node" where
  "parseEach tpos args =
     (let parts = splitArgs args
      in EachNode tpos
           (if 1 \<le> length parts then trimQuotes (parts ! 0) else [])
           (if 2 \<le> length parts then parts ! 1 else [])
           (if 3 \<le> length parts then trimQuotes (parts ! 2) else [])
           (if 4 \<le> length parts then trimQuotes (parts ! 3) else []))"

definition parsePush :: "node_parser \<Rightarrow> Position \<Rightarrow> string \<Rightarrow> bool \<Rightarrow> Parser \<Rightarrow> (Node option \<times> Parser) option" where
  "parsePush pn tpos args once p =
     (let endDirective = (if once then ''endPushOnce'' else ''endpush'')
      in case parseBlock pn endDirective p of
           None \<Rightarrow> None
         | Some (children, p) \<Rightarrow> Some (Some (PushNode tpos (trimQuotes args) children once), p))"

definition parsePrepend :: "node_parser \<Rightarrow> Position \<Rightarrow> string \<Rightarrow> Parser \<Rightarrow> (Node option \<times> Parser) option" where
  "parsePrepend pn tpos args p =
     (case parseBlock pn ''endprepend'' p of
        None \<Rightarrow> None
      | Some (children, p) \<Rightarrow> Some (Some (PrependNode tpos (trimQuotes args) children), p))"

text \<open>
  The loop of \<open>parseComponent\<close>; \<open>cur\<close> is \<open>currentSlot\<close>. Storing a slot under a name that is
  already in \<open>node.Slots\<close> replaces the earlier slot.
\<close>

definition storeSlot :: "SlotNode option \<Rightarrow> (string \<times> SlotNode) list \<Rightarrow> (string \<times> SlotNode) list" where
  "storeSlot cur slots =
     (case cur of
        None \<Rightarrow> slots
      | Some (SlotNode sp name ch) \<Rightarrow> AList.update name (SlotNode sp name ch) slots)"

fun parseComponent_loop :: "node_parser \<Rightarrow> nat \<Rightarrow> Node list \<Rightarrow> (string \<times> SlotNode) list
    \<Rightarrow> SlotNode option \<Rightarrow> Parser
    \<Rightarrow> ((Node list \<times> (string \<times> SlotNode) list \<times> SlotNode option) \<times> Parser) option" where
  "parseComponent_loop pn k children slots cur p =
     (if \<not> isAtEnd p \<and> \<not> isDirective p ''endcomponent''
      then
        (case k of
           0 \<Rightarrow> None
         | Suc k' \<Rightarrow>
             if isDirective p ''slot''
             then
               let slots = storeSlot cur slots;
                   slotToken = p_current p;
                   p = p_advance p
               in parseComponent_loop pn k' children slots
                    (Some (SlotNode (Position slotToken) (trimQuotes (Args slotToken)) [])) p
             else if isDirective p ''endslot''
             then parseComponent_loop pn k' children (storeSlot cur slots) None (p_advance p)
             else
               (case pn p of
                  None \<Rightarrow> None
                | Some (child, p) \<Rightarrow>
                    (case child of
                       None \<Rightarrow> parseComponent_loop pn k' children slots cur p
                     | Some n \<Rightarrow>
                         (case cur of
                            Some (SlotNode sp name ch) \<Rightarrow>
                              parseComponent_loop pn k' children slots
                                (Some (SlotNode sp name (ch @ [n]))) p
                          | None \<Rightarrow>
                              parseComponent_loop pn k' (children @ [n]) slots cur p))))
      else Some ((children, slots, cur), p))"

declare parseComponent_loop.simps [simp del]

definition parseComponent :: "node_parser \<Rightarrow> Position \<Rightarrow> string \<Rightarrow> Parser \<Rightarrow> (Node option \<times> Parser) option" where
  "parseComponent pn tpos args p =
     (let parts = splitArgs args;
          name = (if 1 \<le> length parts then trimQuotes (parts ! 0) else []);
          data = (if 2 \<le> length parts then parts ! 1 else [])
      in case parseComponent_loop pn (loopFuel p) [] [] None p of
           None \<Rightarrow> None
         | Some ((children, slots, cur), p) \<Rightarrow>
             Some (Some (ComponentNode tpos name data children (storeSlot cur slots)),
                   if isDirective p ''endcomponent'' then p_advance p else p))"

fun parseVerbatim_loop :: "nat \<Rightarrow> string \<Rightarrow> Parser \<Rightarrow> (string \<times> Parser) option" where
  "parseVerbatim_loop k content p =
     (if \<not> isAtEnd p
      then
        (case k of
           0 \<Rightarrow> None
         | Suc k' \<Rightarrow>
             if Type (p_current p) = TOKEN_VERBATIM_END then Some (content, p_advance p)
             else parseVerbatim_loop k'
                    (if Type (p_current p) = TOKEN_TEXT then content @ Value (p_current p)
                     else content)
                    (p_advance p))
      else Some (content, p))"

declare parseVerbatim_loop.simps [simp del]

definition parseVerbatim :: "Parser \<Rightarrow> (Node option \<times> Parser) option" where
  "parseVerbatim p =
     (let tpos = Position (p_current p);
          p = p_advance p
      in case parseVerbatim_loop (loopFuel p) [] p of
           None \<Rightarrow> None
         | Some (content, p) \<Rightarrow> Some (Some (VerbatimNode tpos content), p))"

fun parsePhp_loop :: "nat \<Rightarrow> string \<Rightarrow> Parser \<Rightarrow> (string \<times> Parser) option" where
  "parsePhp_loop k code p =
     (if \<not> isAtEnd p \<and> \<not> isDirective p ''endphp''
      then
        (case k of
           0 \<Rightarrow> None
         | Suc k' \<Rightarrow>
             parsePhp_loop k'
               (if Type (p_current p) = TOKEN_TEXT then code @ Value (p_current p) else code)
               (p_advance p))
      else Some (code, p))"

declare parsePhp_loop.simps [simp del]

definition parsePhp :: "Position \<Rightarrow> Parser \<Rightarrow> (Node option \<times> Parser) option" where
  "parsePhp tpos p =
     (case parsePhp_loop (loopFuel p) [] p of
        None \<Rightarrow> None
      | Some (code, p) \<Rightarrow>
          Some (Some (PhpNode tpos (TrimSpace code)),
                if isDirective p ''endphp'' then p_advance p else p))"

definition parseIsset :: "node_parser \<Rightarrow> Position \<Rightarrow> string \<Rightarrow> Parser \<Rightarrow> (Node option \<times> Parser) option" where
  "parseIsset pn tpos variable p =
     (case parseBlock pn ''endisset'' p of
        None \<Rightarrow> None
      | Some (children, p) \<Rightarrow> Some (Some (IssetNode tpos variable children), p))"

definition parseEmptyCheck :: "node_parser \<Rightarrow> Position \<Rightarrow> string \<Rightarrow> Parser \<Rightarrow> (Node option \<times> Parser) option" where
  "parseEmptyCheck pn tpos variable p =
     (case parseBlock pn ''endempty'' p of
        None \<Rightarrow> None
      | Some (children, p) \<Rightarrow> Some (Some (EmptyCheckNode tpos variable children), p))"

definition parseAuth :: "node_parser \<Rightarrow> Position \<Rightarrow> string \<Rightarrow> Parser \<Rightarrow> (Node option \<times> Parser) option" where
  "parseAuth pn tpos guard p =
     (case parseBlock pn ''endauth'' p of
        None \<Rightarrow> None
      | Some (children, p) \<Rightarrow> Some (Some (AuthNode tpos (trimQuotes guard) children), p))"

definition parseGuest :: "node_parser \<Rightarrow> Position \<Rightarrow> string \<Rightarrow> Parser \<Rightarrow> (Node option \<times> Parser) option" where
  "parseGuest pn tpos guard p =
     (case parseBlock pn ''endguest'' p of
        None \<Rightarrow> None
      | Some (children, p) \<Rightarrow> Some (Some (GuestNode tpos (trimQuotes guard) children), p))"

definition parseEnv :: "node_parser \<Rightarrow> Position \<Rightarrow> string \<Rightarrow> Parser \<Rightarrow> (Node option \<times> Parser) option" where
  "parseEnv pn tpos args p =
     (case parseBlock pn ''endenv'' p of
        None \<Rightarrow> None
      | Some (children, p) \<Rightarrow> Some (Some (EnvNode tpos (parseEnvList args) children), p))"

definition parseProduction :: "node_parser \<Rightarrow> Position \<Rightarrow> Parser \<Rightarrow> (Node option \<times> Parser) option" where
  "parseProduction pn tpos p =
     (case parseBlock pn ''endproduction'' p of
        None \<Rightarrow> None
      | Some (children, p) \<Rightarrow> Some (Some (ProductionNode tpos children), p))"

definition parseError :: "node_parser \<Rightarrow> Position \<Rightarrow> string \<Rightarrow> Parser \<Rightarrow> (Node option \<times> Parser) option" where
  "parseError pn tpos field p =
     (case parseBlock pn ''enderror'' p of
        None \<Rightarrow> None
      | Some (children, p) \<Rightarrow> Some (Some (ErrorNode tpos (trimQuotes field) children), p))"

definition parseOnce :: "node_parser \<Rightarrow> Position \<Rightarrow> Parser \<Rightarrow> (Node option \<times> Parser) option" where
  "parseOnce pn tpos p =
     (case parseBlock pn ''endonce'' p of
        None \<Rightarrow> None
      | Some (children, p) \<Rightarrow> Some (Some (OnceNode tpos children), p))"

definition parseDirective :: "node_parser \<Rightarrow> Parser \<Rightarrow> (Node option \<times> Parser) option" where
  "parseDirective pn p =
     (let token = p_current p;
          name = Value token;
          args = Args token;
          tpos = Position token;
          p = p_advance p
      in if name = ''if'' then parseIf pn tpos args p
         else if name = ''unless'' then parseUnless pn tpos args p
         else if name = ''switch'' then parseSwitch pn tpos args p
         else if name = ''for'' then parseFor pn tpos args p
         else if name = ''foreach'' then parseForeach pn tpos args p
         else if name = ''forelse'' then parseForelse pn tpos args p
         else if name = ''while'' then parseWhile pn tpos args p
         else if name = ''section'' then parseSection pn tpos args p
         else if name = ''yield'' then Some (Some (parseYield tpos args), p)
         else if name = ''extends'' then Some (Some (ExtendsNode tpos (trimQuotes args)), p)
         else if name = ''include'' \<or> name = ''includeIf'' \<or> name = ''includeWhen''
                 \<or> name = ''includeUnless'' \<or> name = ''includeFirst''
         then Some (Some (parseInclude tpos name args), p)
         else if name = ''each'' then Some (Some (parseEach tpos args), p)
         else if name = ''push'' then parsePush pn tpos args False p
         else if name = ''pushOnce'' then parsePush pn tpos args True p
         else if name = ''prepend'' then parsePrepend pn tpos args p
         else if name = ''stack'' then Some (Some (StackNode tpos (trimQuotes args)), p)
         else if name = ''component'' then parseComponent pn tpos args p
         else if name = ''php'' then parsePhp tpos p
         else if name = ''isset'' then parseIsset pn tpos args p
         else if name = ''empty'' then parseEmptyCheck pn tpos args p
         else if name = ''auth'' then parseAuth pn tpos args p
         else if name = ''guest'' then parseGuest pn tpos args p
         else if name = ''env'' then parseEnv pn tpos args p
         else if name = ''production'' then parseProduction pn tpos p
         else if name = ''error'' then parseError pn tpos args p
         else if name = ''once'' then parseOnce pn tpos p
         else if name = ''break'' then Some (Some (BreakNode tpos args), p)
         else if name = ''continue'' then Some (Some (ContinueNode tpos args), p)
         else if name = ''parent'' then Some (Some (ParentNode tpos), p)
         else Some (Some (DirectiveNode tpos name args), p))"

fun parseNode :: "nat \<Rightarrow> Parser \<Rightarrow> (Node option \<times> Parser) option" where
  "parseNode 0 p = None"
| "parseNode (Suc fuel) p =
     (let token = p_current p
      in case Type token of
           TOKEN_TEXT \<Rightarrow> Some (Some (TextNode (Position token) (Value token)), p_advance p)
         | TOKEN_ECHO_ESCAPED \<Rightarrow>
             Some (Some (EchoNode (Position token) (Value token) True), p_advance p)
         | TOKEN_ECHO_RAW \<Rightarrow>
             Some (Some (EchoNode (Position token) (Value token) False), p_advance p)
         | TOKEN_COMMENT \<Rightarrow>
             Some (Some (CommentNode (Position token) (Value token)), p_advance p)
         | TOKEN_DIRECTIVE \<Rightarrow> parseDirective (parseNode fuel) p
         | TOKEN_DIRECTIVE_ARGS \<Rightarrow> parseDirective (parseNode fuel) p
         | TOKEN_VERBATIM_START \<Rightarrow> parseVerbatim p
         | TOKEN_EOF \<Rightarrow> Some (None, p)
         | TOKEN_VERBATIM_END \<Rightarrow> Some (None, p_advance p))"

text \<open>
  \<open>Parse\<close>: the nesting of calls of \<open>parseNode\<close> is bounded by the number of tokens, which is
  the fuel given.
\<close>

definition Parse :: "Parser \<Rightarrow> RootNode option" where
  "Parse p =
     (case parseChildren (parseNode (length (p_tokens p) + 1)) (\<lambda>p. False) (loopFuel p) [] p of
        None \<Rightarrow> None
      | Some (children, p) \<Rightarrow> Some \<lparr>Children = children\<rparr>)"

section \<open>package compiler\<close>

text \<open>
  The compiler's state. \<open>sections\<close> is ranged over by the engine, so it is an association
  list; \<open>parentCalls\<close> and \<open>onceKeys\<close> are maps to \<open>bool\<close> that only ever receive \<open>true\<close>,
  so they are the sets of their keys; \<open>pushes\<close> and \<open>prepends\<close> are only read by key, a
  missing key reading as the empty slice.
\<close>

record Compiler =
  extends :: string
  sections :: "(string \<times> string) list"
  parentCalls :: "string set"
  pushes :: "string \<Rightarrow> string list"
  prepends :: "string \<Rightarrow> string list"
  loopDepth :: int
  onceKeys :: "string set"

definition compiler_New :: Compiler where
  "compiler_New = \<lparr>extends = [], sections = [], parentCalls = {}, pushes = (\<lambda>_. []),
                    prepends = (\<lambda>_. []), loopDepth = 0, onceKeys = {}\<rparr>"

definition GetExtends :: "Compiler \<Rightarrow> string" where
  "GetExtends c = extends c"

definition GetSections :: "Compiler \<Rightarrow> (string \<times> string) list" where
  "GetSections c = sections c"

definition GetPushes :: "Compiler \<Rightarrow> string \<Rightarrow> string list" where
  "GetPushes c name = pushes c name"

definition GetPrepends :: "Compiler \<Rightarrow> string \<Rightarrow> string list" where
  "GetPrepends c name = prepends c name"

definition HasParentCall :: "Compiler \<Rightarrow> string \<Rightarrow> bool" where
  "HasParentCall c section = (section \<in> parentCalls c)"

text \<open>
  No compile method ever constructs an error: each returns \<open>nil\<close> or hands on the error
  of a callee. The \<open>err != nil\<close> branches are therefore never taken, and the methods are
  modelled as returning the string and the compiler's new state. A parameter \<open>kids\<close>
  stands for the call \<open>c.compileChildren(n.Children)\<close> on the node's children (\<open>empty\<close>,
  \<open>elseifs\<close>, \<open>cases\<close>, \<open>slots\<close> likewise for the other child lists).
\<close>

type_synonym compiled = "Compiler \<Rightarrow> string \<times> Compiler"

definition compileEcho :: "string \<Rightarrow> bool \<Rightarrow> string" where
  "compileEcho expression escaped =
     (let expr = transformExpression expression
      in if escaped then ''{{ html '' @ expr @ '' }}'' else ''{{ '' @ expr @ '' }}'')"

definition compileClass :: "string \<Rightarrow> string" where
  "compileClass args = ''class='' @ dq @ ''{{ classArray '' @ args @ '' }}'' @ dq"

definition compileStyle :: "string \<Rightarrow> string" where
  "compileStyle args = ''style='' @ dq @ ''{{ styleArray '' @ args @ '' }}'' @ dq"

definition compileDirective :: "string \<Rightarrow> string \<Rightarrow> string" where
  "compileDirective name args =
     (if name = ''csrf''
      then ''<input type='' @ dq @ ''hidden'' @ dq @ '' name='' @ dq @ ''_token'' @ dq
           @ '' value='' @ dq @ ''{{ .csrf_token }}'' @ dq @ ''>''
      else if name = ''method''
      then ''<input type='' @ dq @ ''hidden'' @ dq @ '' name='' @ dq @ ''_method'' @ dq
           @ '' value='' @ dq @ Trim args (sq @ dq) @ dq @ ''>''
      else if name = ''json'' then ''{{ json '' @ transformExpression args @ '' }}''
      else if name = ''class'' then compileClass args
      else if name = ''style'' then compileStyle args
      else if name = ''checked''
      then ''{{ if '' @ transformExpression args @ '' }}checked{{ end }}''
      else if name = ''selected''
      then ''{{ if '' @ transformExpression args @ '' }}selected{{ end }}''
      else if name = ''disabled''
      then ''{{ if '' @ transformExpression args @ '' }}disabled{{ end }}''
      else if name = ''readonly''
      then ''{{ if '' @ transformExpression args @ '' }}readonly{{ end }}''
      else if name = ''required''
      then ''{{ if '' @ transformExpression args @ '' }}required{{ end }}''
      else if name = ''old''
      then ''{{ index .old '' @ dq @ Trim args (sq @ dq) @ dq @ '' }}''
      else if args \<noteq> []
      then ''{{ '' @ name @ '' '' @ transformExpression args @ '' }}''
      else ''{{ '' @ name @ '' }}'')"

definition compileIf :: "compiled \<Rightarrow> compiled \<Rightarrow> compiled option \<Rightarrow> Compiler \<Rightarrow> string \<Rightarrow> string \<times> Compiler" where
  "compileIf kids elseifs els c condition =
     (let result = ''{{ if '' @ transformExpression condition @ '' }}'';
          (children, c) = kids c;
          result = result @ children;
          (elseifChildren, c) = elseifs c;
          result = result @ elseifChildren;
          (result, c) = (case els of
                           None \<Rightarrow> (result, c)
                         | Some elseKids \<Rightarrow>
                             let (elseChildren, c) = elseKids c
                             in (result @ ''{{ else }}'' @ elseChildren, c))
      in (result @ ''{{ end }}'', c))"

definition compileUnless :: "compiled \<Rightarrow> Compiler \<Rightarrow> string \<Rightarrow> string \<times> Compiler" where
  "compileUnless kids c condition =
     (let result = ''{{ if not '' @ transformExpression condition @ '' }}'';
          (children, c) = kids c
      in (result @ children @ ''{{ end }}'', c))"

definition compileSwitch :: "(string \<Rightarrow> compiled) \<Rightarrow> nat \<Rightarrow> compiled option \<Rightarrow> Compiler \<Rightarrow> string \<Rightarrow> string \<times> Compiler" where
  \<comment> \<open>\<open>cases expr\<close> is the loop over \<open>n.Cases\<close>, \<open>ncases\<close> is \<open>len(n.Cases)\<close>\<close>
  "compileSwitch cases ncases dflt c expression =
     (let expr = transformExpression expression;
          (result, c) = cases expr c;
          (result, c) = (case dflt of
                           None \<Rightarrow> (result, c)
                         | Some defaultKids \<Rightarrow>
                             let (defaultChildren, c) = defaultKids c
                             in (result @ ''{{ else }}'' @ defaultChildren, c));
          result = (if 0 < ncases \<or> dflt \<noteq> None then result @ ''{{ end }}'' else result)
      in (result, c))"

definition extractForRange :: "string \<Rightarrow> string \<Rightarrow> string" where
  \<comment> \<open>the arguments are \<open>n.Init\<close> and \<open>n.Condition\<close>\<close>
  "extractForRange init cond =
     (let init = TrimPrefix init ''$'';
          init = (case strings_Index init ''='' of
                    Some idx \<Rightarrow> TrimSpace (drop (idx + 1) init)
                  | None \<Rightarrow> init);
          endv = (case findForEnd cond of Some m \<Rightarrow> m | None \<Rightarrow> ''10'')
      in init @ '' '' @ endv)"

definition compileFor :: "compiled \<Rightarrow> Compiler \<Rightarrow> string \<Rightarrow> string \<Rightarrow> string \<times> Compiler" where
  "compileFor kids c init cond =
     (let c = c\<lparr>loopDepth := loopDepth c + 1\<rparr>;
          d = itoa (loopDepth c);
          result = ''{{ $__loop'' @ d @ '' := newLoop -1 '' @ d @ '' }}'';
          result = result @ ''{{ range $__idx'' @ d @ '' := seq '' @ extractForRange init cond
                     @ '' }}'';
          result = result @ ''{{ $loop := $__loop'' @ d @ ''.Update $__idx'' @ d @ '' }}'';
          (children, c) = kids c;
          result = result @ children @ ''{{ end }}''
      in (result, c\<lparr>loopDepth := loopDepth c - 1\<rparr>))"

definition foreachHeader :: "string \<Rightarrow> string \<Rightarrow> string \<Rightarrow> string \<Rightarrow> string" where
  \<comment> \<open>the three actions that \<open>compileForeach\<close> and \<open>compileForelse\<close> both emit before the body;
      \<open>d\<close> is the printed \<open>c.loopDepth\<close>\<close>
  "foreachHeader d items key val =
     (let key = (if key = [] then ''_'' else key);
          key = TrimPrefix key ''$'';
          val = TrimPrefix val ''$'';
          result = ''{{ $__loop'' @ d @ '' := newLoop (len '' @ items @ '') '' @ d @ '' }}'';
          result = (if key = ''_''
                    then result @ ''{{ range $__idx'' @ d @ '', $'' @ val @ '' := '' @ items
                           @ '' }}''
                    else result @ ''{{ range $'' @ key @ '', $'' @ val @ '' := '' @ items
                           @ '' }}'');
          result = (if key = ''_''
                    then result @ ''{{ $loop := $__loop'' @ d @ ''.Update $__idx'' @ d @ '' }}''
                    else result @ ''{{ $loop := $__loop'' @ d @ ''.Update $'' @ key @ '' }}'')
      in result)"

definition compileForeach :: "compiled \<Rightarrow> Compiler \<Rightarrow> string \<Rightarrow> string \<Rightarrow> string \<Rightarrow> string \<times> Compiler" where
  "compileForeach kids c items key val =
     (let c = c\<lparr>loopDepth := loopDepth c + 1\<rparr>;
          items = transformExpression items;
          result = foreachHeader (itoa (loopDepth c)) items key val;
          (children, c) = kids c;
          result = result @ children @ ''{{ end }}''
      in (result, c\<lparr>loopDepth := loopDepth c - 1\<rparr>))"

definition compileForelse :: "compiled \<Rightarrow> compiled \<Rightarrow> Compiler \<Rightarrow> string \<Rightarrow> string \<Rightarrow> string \<Rightarrow> string \<times> Compiler" where
  "compileForelse kids emptyKids c items key val =
     (let c = c\<lparr>loopDepth := loopDepth c + 1\<rparr>;
          items = transformExpression items;
          result = ''{{ if '' @ items @ '' }}'';
          result = result @ foreachHeader (itoa (loopDepth c)) items key val;
          (children, c) = kids c;
          result = result @ children @ ''{{ end }}'';
          result = result @ ''{{ else }}'';
          (emptyChildren, c) = emptyKids c;
          result = result @ emptyChildren @ ''{{ end }}''
      in (result, c\<lparr>loopDepth := loopDepth c - 1\<rparr>))"

definition compileWhile :: "compiled \<Rightarrow> Compiler \<Rightarrow> string \<Rightarrow> string \<times> Compiler" where
  "compileWhile kids c cond =
     (let c = c\<lparr>loopDepth := loopDepth c + 1\<rparr>;
          d = itoa (loopDepth c);
          condition = transformExpression cond;
          result = ''{{ $__loop'' @ d @ '' := newLoop -1 '' @ d @ '' }}'';
          result = result @ ''{{ range $__idx'' @ d @ '' := until 1000 }}'';
          result = result @ ''{{ if not '' @ condition @ '' }}{{ break }}{{ end }}'';
          result = result @ ''{{ $loop := $__loop'' @ d @ ''.Update $__idx'' @ d @ '' }}'';
          (children, c) = kids c;
          result = result @ children @ ''{{ end }}''
      in (result, c\<lparr>loopDepth := loopDepth c - 1\<rparr>))"

definition compileSection :: "compiled \<Rightarrow> Compiler \<Rightarrow> string \<Rightarrow> string \<Rightarrow> bool \<Rightarrow> string \<times> Compiler" where
  "compileSection kids c name content isShow =
     (if content \<noteq> []
      then ([], c\<lparr>sections := AList.update name content (sections c)\<rparr>)
      else
        let (children, c) = kids c;
            c = (if Contains children ''{{__PARENT__}}''
                 then c\<lparr>parentCalls := insert name (parentCalls c)\<rparr> else c);
            c = c\<lparr>sections := AList.update name children (sections c)\<rparr>
        in if isShow
           then (''{{ block '' @ dq @ name @ dq @ '' . }}'' @ children @ ''{{ end }}'', c)
           else ([], c))"

definition compileYield :: "string \<Rightarrow> string \<Rightarrow> string" where
  "compileYield name dflt =
     (if dflt \<noteq> []
      then ''{{ block '' @ dq @ name @ dq @ '' . }}'' @ dflt @ ''{{ end }}''
      else ''{{ block '' @ dq @ name @ dq @ '' . }}{{ end }}'')"

definition includeCall :: "string \<Rightarrow> string \<Rightarrow> string" where
  \<comment> \<open>the \<open>template\<close> action of \<open>compileInclude\<close>, with or without merged data\<close>
  "includeCall template data =
     (if data \<noteq> []
      then ''{{ template '' @ dq @ template @ dq @ '' (merge . '' @ data @ '') }}''
      else ''{{ template '' @ dq @ template @ dq @ '' . }}'')"

definition compileInclude :: "string \<Rightarrow> string \<Rightarrow> string \<Rightarrow> string \<Rightarrow> string" where
  "compileInclude variant template data condition =
     (if variant = ''include'' then includeCall template data
      else if variant = ''includeIf''
      then ''{{ if templateExists '' @ dq @ template @ dq @ '' }}'' @ includeCall template data
           @ ''{{ end }}''
      else if variant = ''includeWhen''
      then ''{{ if '' @ transformExpression condition @ '' }}'' @ includeCall template data
           @ ''{{ end }}''
      else if variant = ''includeUnless''
      then ''{{ if not '' @ transformExpression condition @ '' }}'' @ includeCall template data
           @ ''{{ end }}''
      else if variant = ''includeFirst'' then ''{{ includeFirst '' @ template @ '' . }}''
      else [])"

definition compileEach :: "string \<Rightarrow> string \<Rightarrow> string \<Rightarrow> string \<Rightarrow> string" where
  "compileEach template items itemVar emptyView =
     (let items = transformExpression items
      in if emptyView \<noteq> []
         then ''{{ each '' @ dq @ template @ dq @ '' '' @ items @ '' '' @ dq @ itemVar @ dq
              @ '' '' @ dq @ emptyView @ dq @ '' }}''
         else ''{{ each '' @ dq @ template @ dq @ '' '' @ items @ '' '' @ dq @ itemVar @ dq
              @ '' '' @ dq @ dq @ '' }}'')"

definition compilePush :: "compiled \<Rightarrow> Compiler \<Rightarrow> string \<Rightarrow> bool \<Rightarrow> string \<times> Compiler" where
  "compilePush kids c stack_name once =
     (let (children, c) = kids c;
          key = ''push_'' @ stack_name @ ''_'' @ children
      in if once \<and> key \<in> onceKeys c then ([], c)
         else
           let c = (if once then c\<lparr>onceKeys := insert key (onceKeys c)\<rparr> else c)
           in ([], c\<lparr>pushes := (pushes c)(stack_name := pushes c stack_name @ [children])\<rparr>))"

definition compilePrepend :: "compiled \<Rightarrow> Compiler \<Rightarrow> string \<Rightarrow> string \<times> Compiler" where
  "compilePrepend kids c stack_name =
     (let (children, c) = kids c
      in ([], c\<lparr>prepends := (prepends c)(stack_name := children # prepends c stack_name)\<rparr>))"

definition compileStack :: "string \<Rightarrow> string" where
  "compileStack name = ''{{ stack '' @ dq @ name @ dq @ '' }}''"

definition compileComponent :: "compiled \<Rightarrow> compiled \<Rightarrow> Compiler \<Rightarrow> string \<Rightarrow> string \<Rightarrow> string \<times> Compiler" where
  "compileComponent kids slots c name data =
     (let (defaultSlot, c) = kids c;
          result = ''{{ $__slots := dict '' @ dq @ ''default'' @ dq @ '' '' @ [CHR 0x60]
                   @ escapeBackticks defaultSlot @ [CHR 0x60];
          (slotsText, c) = slots c;
          result = result @ slotsText @ '' }}'';
          call = ''{{ template '' @ dq @ ''components/'' @ name @ dq @ '' (merge . (dict ''
                 @ dq @ ''slot'' @ dq @ '' (index $__slots '' @ dq @ ''default'' @ dq @ '') ''
                 @ dq @ ''slots'' @ dq @ '' $__slots)'';
          result = (if data \<noteq> [] then result @ call @ '' '' @ data @ '') }}''
                    else result @ call @ '') }}'')
      in (result, c))"

definition compilePhp :: "string \<Rightarrow> string" where
  "compilePhp code = ''{{ /* php: '' @ code @ '' */ }}''"

definition compileIsset :: "compiled \<Rightarrow> Compiler \<Rightarrow> string \<Rightarrow> string \<times> Compiler" where
  "compileIsset kids c variable =
     (let result = ''{{ if isset '' @ transformExpression variable @ '' }}'';
          (children, c) = kids c
      in (result @ children @ ''{{ end }}'', c))"

definition compileEmptyCheck :: "compiled \<Rightarrow> Compiler \<Rightarrow> string \<Rightarrow> string \<times> Compiler" where
  "compileEmptyCheck kids c variable =
     (let result = ''{{ if empty '' @ transformExpression variable @ '' }}'';
          (children, c) = kids c
      in (result @ children @ ''{{ end }}'', c))"

definition compileAuth :: "compiled \<Rightarrow> Compiler \<Rightarrow> string \<Rightarrow> string \<times> Compiler" where
  "compileAuth kids c guard =
     (let result = (if guard \<noteq> [] then ''{{ if auth '' @ dq @ guard @ dq @ '' }}''
                    else ''{{ if .auth }}'');
          (children, c) = kids c
      in (result @ children @ ''{{ end }}'', c))"

definition compileGuest :: "compiled \<Rightarrow> Compiler \<Rightarrow> string \<Rightarrow> string \<times> Compiler" where
  "compileGuest kids c guard =
     (let result = (if guard \<noteq> [] then ''{{ if not (auth '' @ dq @ guard @ dq @ '') }}''
                    else ''{{ if not .auth }}'');
          (children, c) = kids c
      in (result @ children @ ''{{ end }}'', c))"

definition compileEnv :: "compiled \<Rightarrow> Compiler \<Rightarrow> string list \<Rightarrow> string \<times> Compiler" where
  "compileEnv kids c environments =
     (let result =
            (if length environments = 1
             then ''{{ if eq .env '' @ dq @ hd environments @ dq @ '' }}''
             else ''{{ if or ''
                  @ Join (map (\<lambda>env. ''(eq .env '' @ dq @ env @ dq @ '')'') environments) '' ''
                  @ '' }}'');
          (children, c) = kids c
      in (result @ children @ ''{{ end }}'', c))"

definition compileProduction :: "compiled \<Rightarrow> Compiler \<Rightarrow> string \<times> Compiler" where
  "compileProduction kids c =
     (let result = ''{{ if eq .env '' @ dq @ ''production'' @ dq @ '' }}'';
          (children, c) = kids c
      in (result @ children @ ''{{ end }}'', c))"

definition compileError :: "compiled \<Rightarrow> Compiler \<Rightarrow> string \<Rightarrow> string \<times> Compiler" where
  "compileError kids c field =
     (let result = ''{{ if hasError .errors '' @ dq @ field @ dq @ '' }}'';
          result = result @ ''{{ $message := getError .errors '' @ dq @ field @ dq @ '' }}'';
          (children, c) = kids c
      in (result @ children @ ''{{ end }}'', c))"

definition compileOnce :: "compiled \<Rightarrow> Compiler \<Rightarrow> string \<times> Compiler" where
  "compileOnce kids c =
     (let (children, c) = kids c;
          key = ''once_'' @ children
      in if key \<in> onceKeys c then ([], c)
         else (children, c\<lparr>onceKeys := insert key (onceKeys c)\<rparr>))"

definition compileBreak :: "string \<Rightarrow> string" where
  "compileBreak condition =
     (if condition \<noteq> []
      then ''{{ if '' @ transformExpression condition @ '' }}{{ break }}{{ end }}''
      else ''{{ break }}'')"

definition compileContinue :: "string \<Rightarrow> string" where
  "compileContinue condition =
     (if condition \<noteq> []
      then ''{{ if '' @ transformExpression condition @ '' }}{{ continue }}{{ end }}''
      else ''{{ continue }}'')"


function compileNode :: "Compiler \<Rightarrow> Node \<Rightarrow> string \<times> Compiler"
  and compileChildren :: "Compiler \<Rightarrow> Node list \<Rightarrow> string \<times> Compiler"
  and compileElseIfs :: "Compiler \<Rightarrow> ElseIfNode list \<Rightarrow> string \<times> Compiler"
  and compileCases :: "string \<Rightarrow> nat \<Rightarrow> Compiler \<Rightarrow> CaseNode list \<Rightarrow> string \<times> Compiler"
  and compileSlots :: "Compiler \<Rightarrow> (string \<times> SlotNode) list \<Rightarrow> string \<times> Compiler"
where
  "compileNode c (TextNode p content) = (content, c)"
| "compileNode c (EchoNode p expression escaped) = (compileEcho expression escaped, c)"
| "compileNode c (CommentNode p content) = ([], c)"
| "compileNode c (DirectiveNode p name args) = (compileDirective name args, c)"
| "compileNode c (IfNode p condition children elseifs els) =
     compileIf (\<lambda>c. compileChildren c children) (\<lambda>c. compileElseIfs c elseifs)
       (case els of
          None \<Rightarrow> None
        | Some (ElseNode p' elseChildren) \<Rightarrow> Some (\<lambda>c. compileChildren c elseChildren))
       c condition"
| "compileNode c (UnlessNode p condition children) =
     compileUnless (\<lambda>c. compileChildren c children) c condition"
| "compileNode c (SwitchNode p expression cases dflt) =
     compileSwitch (\<lambda>expr c. compileCases expr 0 c cases) (length cases)
       (case dflt of
          None \<Rightarrow> None
        | Some (DefaultNode p' defaultChildren) \<Rightarrow> Some (\<lambda>c. compileChildren c defaultChildren))
       c expression"
| "compileNode c (ForNode p init cond post children) =
     compileFor (\<lambda>c. compileChildren c children) c init cond"
| "compileNode c (ForeachNode p items key val children) =
     compileForeach (\<lambda>c. compileChildren c children) c items key val"
| "compileNode c (ForelseNode p items key val children emptyChildren) =
     compileForelse (\<lambda>c. compileChildren c children) (\<lambda>c. compileChildren c emptyChildren)
       c items key val"
| "compileNode c (WhileNode p condition children) =
     compileWhile (\<lambda>c. compileChildren c children) c condition"
| "compileNode c (SectionNode p name content children isShow) =
     compileSection (\<lambda>c. compileChildren c children) c name content isShow"
| "compileNode c (YieldNode p name dflt) = (compileYield name dflt, c)"
| "compileNode c (ExtendsNode p template) = ([], c\<lparr>extends := template\<rparr>)"
| "compileNode c (IncludeNode p variant template data condition) =
     (compileInclude variant template data condition, c)"
| "compileNode c (EachNode p template items itemVar emptyView) =
     (compileEach template items itemVar emptyView, c)"
| "compileNode c (PushNode p stack_name children once) =
     compilePush (\<lambda>c. compileChildren c children) c stack_name once"
| "compileNode c (PrependNode p stack_name children) =
     compilePrepend (\<lambda>c. compileChildren c children) c stack_name"
| "compileNode c (StackNode p name) = (compileStack name, c)"
| "compileNode c (ComponentNode p name data children slots) =
     compileComponent (\<lambda>c. compileChildren c children) (\<lambda>c. compileSlots c slots) c name data"
| "compileNode c (VerbatimNode p content) = (content, c)"
| "compileNode c (PhpNode p code) = (compilePhp code, c)"
| "compileNode c (IssetNode p variable children) =
     compileIsset (\<lambda>c. compileChildren c children) c variable"
| "compileNode c (EmptyCheckNode p variable children) =
     compileEmptyCheck (\<lambda>c. compileChildren c children) c variable"
| "compileNode c (AuthNode p guard children) =
     compileAuth (\<lambda>c. compileChildren c children) c guard"
| "compileNode c (GuestNode p guard children) =
     compileGuest (\<lambda>c. compileChildren c children) c guard"
| "compileNode c (EnvNode p environments children) =
     compileEnv (\<lambda>c. compileChildren c children) c environments"
| "compileNode c (ProductionNode p children) =
     compileProduction (\<lambda>c. compileChildren c children) c"
| "compileNode c (ErrorNode p field children) =
     compileError (\<lambda>c. compileChildren c children) c field"
| "compileNode c (OnceNode p children) = compileOnce (\<lambda>c. compileChildren c children) c"
| "compileNode c (BreakNode p condition) = (compileBreak condition, c)"
| "compileNode c (ContinueNode p condition) = (compileContinue condition, c)"
| "compileNode c (ParentNode p) = (''{{__PARENT__}}'', c)"
| "compileChildren c [] = ([], c)"
| "compileChildren c (child # children) =
     (let (compiled, c) = compileNode c child;
          (result, c) = compileChildren c children
      in (compiled @ result, c))"
| "compileElseIfs c [] = ([], c)"
| "compileElseIfs c (ElseIfNode p condition children # elseifs) =
     (let result = ''{{ else if '' @ transformExpression condition @ '' }}'';
          (elseifChildren, c) = compileChildren c children;
          (more, c) = compileElseIfs c elseifs
      in (result @ elseifChildren @ more, c))"
| "compileCases expr i c [] = ([], c)"
| "compileCases expr i c (CaseNode p v children # cases) =
     (let caseVal = transformExpression v;
          result = (if i = 0 then ''{{ if eq '' @ expr @ '' '' @ caseVal @ '' }}''
                    else ''{{ else if eq '' @ expr @ '' '' @ caseVal @ '' }}'');
          (caseChildren, c) = compileChildren c children;
          (more, c) = compileCases expr (i + 1) c cases
      in (result @ caseChildren @ more, c))"
| "compileSlots c [] = ([], c)"
| "compileSlots c ((name, SlotNode p slotName children) # slots) =
     (let (slotContent, c) = compileChildren c children;
          result = '' '' @ dq @ name @ dq @ '' '' @ [CHR 0x60] @ escapeBackticks slotContent
                   @ [CHR 0x60];
          (more, c) = compileSlots c slots
      in (result @ more, c))"
  by pat_completeness auto
termination
  by (relation "measure (\<lambda>x. case x of
          Inl (Inl (c, n)) \<Rightarrow> size n
        | Inl (Inr (c, ns)) \<Rightarrow> size_list size ns
        | Inr (Inl (c, es)) \<Rightarrow> size_list size es
        | Inr (Inr (Inl (expr, i, c, cs))) \<Rightarrow> size_list size cs
        | Inr (Inr (Inr (c, ss))) \<Rightarrow> size_list (size_prod (\<lambda>x. 0) size) ss)")
     (auto split: ElseNode.splits DefaultNode.splits)

definition Compile :: "Compiler \<Rightarrow> RootNode \<Rightarrow> string \<times> Compiler" where
  \<comment> \<open>the loop of \<open>Compile\<close> is the loop of \<open>compileChildren\<close>\<close>
  "Compile c root = compileChildren c (Children root)"

section \<open>package engine: built-in functions\<close>

text \<open>
  The keys of the map that \<open>DefaultFunctions\<close> returns, in the order of the source. The
  engine registers exactly these names (and what the caller adds) with the Go template
  it parses.
\<close>

definition DefaultFunctions :: "string list" where
  "DefaultFunctions =
     [''upper'', ''lower'', ''title'', ''trim'', ''ltrim'', ''rtrim'', ''replace'', ''contains'',
      ''hasPrefix'', ''hasSuffix'', ''split'', ''join'', ''repeat'', ''substr'', ''length'',
      ''nl2br'', ''ucfirst'', ''lcfirst'', ''slug'', ''limit'', ''wordLimit'',
      ''html'', ''htmlAttr'', ''js'', ''url'', ''safeHTML'', ''safeJS'', ''safeURL'', ''safeCSS'',
      ''first'', ''last'', ''reverse'', ''sortAsc'', ''sortDesc'', ''unique'', ''pluck'', ''where'',
      ''groupBy'', ''chunk'', ''flatten'', ''slice'', ''append'', ''prepend'', ''merge'',
      ''dict'', ''set'', ''unset'', ''keys'', ''values'', ''hasKey'',
      ''add'', ''sub'', ''mul'', ''div'', ''mod'', ''round'', ''floor'', ''ceil'', ''abs'', ''min'',
      ''max'', ''currency'', ''number'', ''percent'',
      ''date'', ''now'', ''ago'', ''diff'', ''addDate'', ''subDate'', ''timestamp'',
      ''eq'', ''ne'', ''lt'', ''gt'', ''lte'', ''gte'', ''and'', ''or'', ''not'',
      ''default'', ''isset'', ''empty'', ''dump'', ''json'', ''jsonDec'', ''seq'', ''until'',
      ''index'', ''printf'', ''print'', ''coalesce'', ''ternary'', ''typeof'', ''toInt'',
      ''toFloat'', ''toString'', ''toBool'',
      ''newLoop'',
      ''hasError'', ''getError'',
      ''classArray'', ''styleArray'']"

text \<open>
  \<open>seq\<close> and \<open>until\<close>, for arguments of Go type \<open>int\<close> (which \<open>toInt64\<close> hands on unchanged),
  as the integer constants of the emitted actions are. The slices are lists; the limits
  of allocation are not modelled.
\<close>

definition seq :: "int \<Rightarrow> int \<Rightarrow> int list" where
  "seq s e =
     (if e < s then map (\<lambda>i. s - int i) [0 ..< nat (s - e + 1)]
      else map (\<lambda>i. s + int i) [0 ..< nat (e - s + 1)])"

definition until :: "int \<Rightarrow> int list" where
  "until count = (if count \<le> 0 then [] else map int [0 ..< nat count])"

section \<open>package engine: compiling a template\<close>

text \<open>
  The errors of the engine; the last two wrap the error of the Go template package
  (\<open>error\<close> values of that package are represented by their message).
\<close>

datatype engine_error =
    LexerFailed LexerError
  | ReadParentFailed string
  | StatFailed string
  | CompileParentFailed string engine_error
  | ParseCompiledFailed string string
  | ExecuteFailed string

definition processStacks :: "string \<Rightarrow> Compiler \<Rightarrow> string" where
  "processStacks compiled c = compiled"

text \<open>
  \<open>compile\<close>: tokenize, parse, compile. The result is \<open>None\<close> only if the parser's fuel ran
  out; a lexer error is the only error that can arise.
\<close>

definition compile :: "string \<Rightarrow> (engine_error + string \<times> string \<times> (string \<times> string) list) option" where
  "compile content =
     (case Tokenize (New content) of
        Inl err \<Rightarrow> Some (Inl (LexerFailed err))
      | Inr toks \<Rightarrow>
          (case Parse (parser_New toks) of
             None \<Rightarrow> None
           | Some ast \<Rightarrow>
               let (compiled, c) = Compile compiler_New ast;
                   compiled = processStacks compiled c
               in Some (Inr (compiled, GetExtends c, GetSections c))))"

definition compileString :: "string \<Rightarrow> (engine_error + string) option" where
  "compileString content =
     (case compile content of
        None \<Rightarrow> None
      | Some (Inl err) \<Rightarrow> Some (Inl err)
      | Some (Inr (compiled, ext, secs)) \<Rightarrow> Some (Inr compiled))"

text \<open>
  Go's \<open>html/template\<close> is not part of the repository. It enters as a parameter:
  \<open>goParse funcs name text\<close> stands for \<open>template.New(name).Funcs(funcs).Parse(text)\<close> and
  \<open>goExecute tmpl data\<close> for \<open>tmpl.Execute(&buf, data)\<close> followed by \<open>buf.String()\<close>;
  \<open>Inl\<close> carries their error.
\<close>

record ('t, 'd) GoTemplate =
  goParse :: "string list \<Rightarrow> string \<Rightarrow> string \<Rightarrow> string + 't"
  goExecute :: "'t \<Rightarrow> 'd \<Rightarrow> string + string"

text \<open>
  \<open>prepareData\<close>: the shared data, overridden by the caller's map when \<open>data\<close> is one, and
  the key \<open>__stacks\<close> bound to a new empty map, here the parameter \<open>emptyStacks\<close>.
\<close>

definition prepareData :: "(string \<rightharpoonup> 'v) \<Rightarrow> 'v \<Rightarrow> (string \<rightharpoonup> 'v) option \<Rightarrow> (string \<rightharpoonup> 'v)" where
  "prepareData shared emptyStacks data =
     (let result = shared;
          result = (case data of None \<Rightarrow> result | Some d \<Rightarrow> result ++ d)
      in result(''__stacks'' \<mapsto> emptyStacks))"

definition RenderTemplate ::
  "('t, string \<rightharpoonup> 'v) GoTemplate \<Rightarrow> string list \<Rightarrow> (string \<rightharpoonup> 'v) \<Rightarrow> 'v \<Rightarrow> string
     \<Rightarrow> (string \<rightharpoonup> 'v) option \<Rightarrow> (engine_error + string) option" where
  "RenderTemplate go funcs shared emptyStacks templateStr data =
     (case compileString templateStr of
        None \<Rightarrow> None
      | Some (Inl err) \<Rightarrow> Some (Inl err)
      | Some (Inr compiled) \<Rightarrow>
          (case goParse go funcs ''inline'' compiled of
             Inl err \<Rightarrow> Some (Inl (ParseCompiledFailed ''inline'' err))
           | Inr tmpl \<Rightarrow>
               (case goExecute go tmpl (prepareData shared emptyStacks data) of
                  Inl err \<Rightarrow> Some (Inl (ExecuteFailed err))
                | Inr out \<Rightarrow> Some (Inr out))))"

section \<open>package engine: template inheritance\<close>

text \<open>
  The file system enters as parameters as well: \<open>osJoin\<close> for \<open>filepath.Join\<close>, \<open>osReadFile\<close>
  and \<open>osStat\<close> for \<open>os.ReadFile\<close> and \<open>os.Stat\<close> (the modification time), \<open>None\<close> for an error.
\<close>

record 'time OS =
  osJoin :: "string \<Rightarrow> string \<Rightarrow> string"
  osReadFile :: "string \<Rightarrow> string option"
  osStat :: "string \<Rightarrow> 'time option"

record Engine =
  viewsPath :: string
  extension :: string
  e_functions :: "string list"

definition resolvePath :: "'time OS \<Rightarrow> Engine \<Rightarrow> string \<Rightarrow> string" where
  "resolvePath os e name =
     (let name = ReplaceAll name ''.'' ''/'';
          name = (if \<not> HasSuffix name (extension e) then name @ extension e else name)
      in osJoin os (viewsPath e) name)"

text \<open>The search for the \<open>{{ end }}\<close> that closes a block, from index \<open>i\<close> on.\<close>

function findBlockEnd :: "string \<Rightarrow> nat \<Rightarrow> int \<Rightarrow> nat option" where
  "findBlockEnd parentCompiled i depth =
     (if i < length parentCompiled
      then (if HasPrefix (drop i parentCompiled) ''{{ end }}''
            then (if depth - 1 = 0 then Some (i + length ''{{ end }}'')
                  else findBlockEnd parentCompiled (i + length ''{{ end }}'') (depth - 1))
            else if HasPrefix (drop i parentCompiled) ''{{ if ''
                    \<or> HasPrefix (drop i parentCompiled) ''{{ range ''
                    \<or> HasPrefix (drop i parentCompiled) ''{{ with ''
                    \<or> HasPrefix (drop i parentCompiled) ''{{ block ''
            then findBlockEnd parentCompiled (i + 1) (depth + 1)
            else findBlockEnd parentCompiled (i + 1) depth)
      else None)"
  by pat_completeness auto
termination
  by (relation "measure (\<lambda>(s, i, depth). length s - i)") auto

declare findBlockEnd.simps [simp del]

definition replaceSection :: "(string \<times> string) list \<Rightarrow> string \<Rightarrow> string \<times> string \<Rightarrow> string" where
  \<comment> \<open>one pass of the loop over \<open>childSections\<close>: the new \<open>parentCompiled\<close>\<close>
  "replaceSection parentSections parentCompiled sec =
     (let sectionName = fst sec;
          sectionContent = snd sec;
          sectionContent =
            (if Contains sectionContent ''{{__PARENT__}}''
             then (case map_of parentSections sectionName of
                     Some parentContent \<Rightarrow>
                       ReplaceAll sectionContent ''{{__PARENT__}}'' parentContent
                   | None \<Rightarrow> ReplaceAll sectionContent ''{{__PARENT__}}'' [])
             else sectionContent);
          blockStart = ''{{ block '' @ dq @ sectionName @ dq @ '' . }}''
      in case strings_Index parentCompiled blockStart of
           None \<Rightarrow> parentCompiled
         | Some startIdx \<Rightarrow>
             (case findBlockEnd parentCompiled (startIdx + length blockStart) 1 of
                None \<Rightarrow> parentCompiled
              | Some endIdx \<Rightarrow>
                  take startIdx parentCompiled @ sectionContent @ drop endIdx parentCompiled))"

definition mergeSections :: "(string \<times> string) list \<Rightarrow> (string \<times> string) list \<Rightarrow> (string \<times> string) list" where
  \<comment> \<open>the loop over \<open>parentSections\<close>: the child overrides the parent\<close>
  "mergeSections childSections parentSections =
     foldl (\<lambda>child (name, content).
              if map_of child name = None then AList.update name content child else child)
       childSections parentSections"

text \<open>
  \<open>compileWithInheritance\<close> calls itself when the parent extends a template in turn. The
  result \<open>None\<close> says that the call does not return.
\<close>

partial_function (option) compileWithInheritance ::
  "'time OS \<Rightarrow> Engine \<Rightarrow> (string list \<Rightarrow> string \<Rightarrow> string \<Rightarrow> string + 't) \<Rightarrow> string \<Rightarrow> string
     \<Rightarrow> string \<Rightarrow> (string \<times> string) list \<Rightarrow> (engine_error + 't \<times> 'time) option" where
  "compileWithInheritance os e parse name childCompiled parentName childSections =
     (let parentPath = resolvePath os e parentName
      in case osReadFile os parentPath of
           None \<Rightarrow> Some (Inl (ReadParentFailed parentName))
         | Some parentContent \<Rightarrow>
             (case osStat os parentPath of
                None \<Rightarrow> Some (Inl (StatFailed parentPath))
              | Some parentInfo \<Rightarrow>
                  (case compile parentContent of
                     None \<Rightarrow> None
                   | Some (Inl err) \<Rightarrow> Some (Inl (CompileParentFailed parentName err))
                   | Some (Inr (parentCompiled, parentExtends, parentSections)) \<Rightarrow>
                       let childSections = mergeSections childSections parentSections;
                           parentCompiled =
                             foldl (replaceSection parentSections) parentCompiled childSections
                       in if parentExtends \<noteq> []
                          then compileWithInheritance os e parse name parentCompiled
                                 parentExtends childSections
                          else (case parse (e_functions e) name parentCompiled of
                                  Inl err \<Rightarrow> Some (Inl (ParseCompiledFailed name err))
                                | Inr tmpl \<Rightarrow> Some (Inr (tmpl, parentInfo))))))"

text \<open>\<open>compileFile\<close>, which starts the resolution for a template that extends another.\<close>

definition compileFile ::
  "'time OS \<Rightarrow> Engine \<Rightarrow> (string list \<Rightarrow> string \<Rightarrow> string \<Rightarrow> string + 't) \<Rightarrow> string \<Rightarrow> string
     \<Rightarrow> (engine_error + 't \<times> 'time) option" where
  "compileFile os e parse name filePath =
     (case osReadFile os filePath of
        None \<Rightarrow> Some (Inl (ReadParentFailed name))
      | Some content \<Rightarrow>
          (case osStat os filePath of
             None \<Rightarrow> Some (Inl (StatFailed filePath))
           | Some info \<Rightarrow>
               (case compile content of
                  None \<Rightarrow> None
                | Some (Inl err) \<Rightarrow> Some (Inl (CompileParentFailed name err))
                | Some (Inr (compiled, extendsTemplate, secs)) \<Rightarrow>
                    if extendsTemplate \<noteq> []
                    then compileWithInheritance os e parse name compiled extendsTemplate secs
                    else (case parse (e_functions e) name compiled of
                            Inl err \<Rightarrow> Some (Inl (ParseCompiledFailed name err))
                          | Inr tmpl \<Rightarrow> Some (Inr (tmpl, info))))))"

section \<open>Notions of the specification\<close>

text \<open>
  What the claim calls a decimal integer literal after \<open><\<close> or \<open><=\<close>: somewhere in the
  condition a \<open><\<close>, then white space, then an optional \<open>=\<close>, then white space, then a digit
  (white space may be empty).
\<close>

definition boundLiteralAfterLess :: "string \<Rightarrow> bool" where
  "boundLiteralAfterLess cond =
     (\<exists>pre ws1 eq ws2 d post.
         cond = pre @ ''<'' @ ws1 @ eq @ ws2 @ [d] @ post
         \<and> list_all reSpace ws1 \<and> (eq = [] \<or> eq = ''='') \<and> list_all reSpace ws2 \<and> reDigit d)"

section \<open>Example inputs\<close>

text \<open>
  Two files, \<open>views/A.legit\<close> with \<open>@extends('B')\<close> and \<open>views/B.legit\<close> with \<open>@extends('A')\<close>.
\<close>

definition cyc_files :: "(string \<times> string) list" where
  "cyc_files = [(''views/A.legit'', ''@extends('' @ sq @ ''B'' @ sq @ '')''),
                (''views/B.legit'', ''@extends('' @ sq @ ''A'' @ sq @ '')'')]"

definition cyc_os :: "nat OS" where
  "cyc_os = \<lparr>osJoin = (\<lambda>dir name. dir @ ''/'' @ name),
            osReadFile = map_of cyc_files,
            osStat = (\<lambda>path. map_option (\<lambda>_. 0) (map_of cyc_files path))\<rparr>"

definition cyc_engine :: Engine where
  "cyc_engine = \<lparr>viewsPath = ''views'', extension = ''.legit'', e_functions = DefaultFunctions\<rparr>"

definition cyc_parse :: "string list \<Rightarrow> string \<Rightarrow> string \<Rightarrow> string + string" where
  "cyc_parse funcs name text = Inr text"



section \<open>Properties of the loop record\<close>

lemma go_rem_2_cases:
  assumes "0 \<le>s i"
  shows "go_rem (i + 1) 2 = 0 \<or> go_rem (i + 1) 2 = 1"
proof -
  have i0: "0 \<le> sint i" using assms by (simp add: word_sle_eq)
  have iu: "sint i < 2 ^ 63" using sint_range_size [of i] by (simp add: word_size)
  consider (wrap) "sint i = 2 ^ 63 - 1" | (ok) "sint i < 2 ^ 63 - 1" using iu by linarith
  then show ?thesis
  proof cases
    case wrap
    then have "word_of_int (sint i) = (word_of_int (2 ^ 63 - 1) :: go_int)" by simp
    then have "i = word_of_int (2 ^ 63 - 1)" by simp
    then have "sint (i + 1) = - (2 ^ 63)" by simp
    then have "sint (i + 1) smod 2 = 0" by (simp add: signed_modulo_int_def)
    then show ?thesis by (simp add: go_rem_def)
  next
    case ok
    then have s: "sint (i + 1) = sint i + 1"
      using i0 by (simp add: sint_word_ariths signed_take_bit_int_eq_self)
    have "(sint i + 1) smod 2 = (sint i + 1) mod 2"
      using i0 by (simp add: signed_modulo_int_def sgn_if)
    moreover have "(sint i + 1) mod 2 = 0 \<or> (sint i + 1) mod 2 = 1" by presburger
    ultimately show ?thesis by (auto simp: go_rem_def s)
  qed
qed

text \<open>
  C3. For a loop record at address \<open>a\<close> and an index \<open>i \<ge> 0\<close>, \<open>Update\<close> returns a pointer to a
  new record whose fields are derived as the specification lists them
  (\<open>Iteration = i + 1\<close>; \<open>Remaining = -1\<close> when \<open>Count < 0\<close> and \<open>Count - i - 1\<close> otherwise;
  \<open>Last\<close>, \<open>First\<close>, \<open>Even\<close>, \<open>Odd = \<not> Even\<close>; \<open>Count\<close>, \<open>Depth\<close>, \<open>Parent\<close> carried over),
  and every record that was in the store before, the receiver included, is unchanged.
\<close>

theorem Update_derives_new_record:
  assumes "a < length h" and "0 \<le>s i"
  shows "\<exists>h' b. Update h (Some a) i = Inr (h', Some b) \<and> b \<noteq> a \<and> b < length h'
           \<and> Index (h' ! b) = i
           \<and> Iteration (h' ! b) = i + 1
           \<and> Remaining (h' ! b) = (if Count (h ! a) <s 0 then - 1 else Count (h ! a) - i - 1)
           \<and> Last (h' ! b) = (0 \<le>s Count (h ! a) \<and> i = Count (h ! a) - 1)
           \<and> First (h' ! b) = (i = 0)
           \<and> Even (h' ! b) = (go_rem (i + 1) 2 = 0)
           \<and> Odd (h' ! b) = (\<not> Even (h' ! b))
           \<and> Count (h' ! b) = Count (h ! a)
           \<and> Depth (h' ! b) = Depth (h ! a)
           \<and> Parent (h' ! b) = Parent (h ! a)
           \<and> (\<forall>k < length h. h' ! k = h ! k)"
proof -
  have odd: "(go_rem (i + 1) 2 = 1) = (go_rem (i + 1) 2 \<noteq> 0)"
    using go_rem_2_cases [OF assms(2)] by auto
  have neg: "(Count (h ! a) <s 0) = (\<not> 0 \<le>s Count (h ! a))"
    by (simp add: word_sle_eq word_sless_alt not_le)
  show ?thesis
    using assms(1) odd neg
    by (simp add: Update_def Let_def nth_append)
qed

theorem Update_derives_new_record_witness:
  "\<exists>h' b. Update (fst (NewLoop [] 3 1)) (Some 0) 2 = Inr (h', Some b) \<and> b \<noteq> 0
      \<and> Iteration (h' ! b) = 3 \<and> Remaining (h' ! b) = 0 \<and> Last (h' ! b)
      \<and> \<not> First (h' ! b) \<and> Odd (h' ! b) \<and> \<not> Even (h' ! b) \<and> Count (h' ! b) = 3
      \<and> h' ! 0 = fst (NewLoop [] 3 1) ! 0"
proof -
  have a: "(0::nat) < length (fst (NewLoop [] 3 1))" by (simp add: NewLoop_def)
  have i: "(0 :: go_int) \<le>s 2" by (simp add: word_sle_eq)
  have r: "go_rem (2 + 1) 2 = 1" by (simp add: go_rem_def signed_modulo_int_def)
  show ?thesis
    using Update_derives_new_record [OF a i] r
    by (auto simp: NewLoop_def word_sless_alt word_sle_eq)
qed

subsection \<open>Comments\<close>

lemma matchString_prefix:
  assumes "s \<noteq> []"
  shows "matchString l s = prefix s (drop (pos l) (input l))"
proof (cases "length (input l) < pos l + length s")
  case True
  have "\<not> prefix s (drop (pos l) (input l))"
  proof
    assume "prefix s (drop (pos l) (input l))"
    then have "length s \<le> length (input l) - pos l"
      by (auto dest: prefix_length_le)
    moreover have "0 < length s" using assms by simp
    ultimately show False using True by linarith
  qed
  with True show ?thesis by (simp add: matchString_def)
next
  case False
  then have "matchString l s = (take (length s) (drop (pos l) (input l)) = s)"
    by (simp add: matchString_def slice_def)
  also have "\<dots> = prefix s (drop (pos l) (input l))"
    by (metis append_take_drop_id prefix_def append_eq_conv_conj)
  finally show ?thesis .
qed

lemma matchString_close:
  "matchString l ''--}}'' = prefix ''--}}'' (drop (pos l) (input l))"
  by (rule matchString_prefix) simp

lemma scanComment_loop_Index:
  "fst (scanComment_loop sp start l) =
     (case strings_Index (drop (pos l) (input l)) ''--}}'' of
        None \<Rightarrow> Inl \<lparr>Message = ''Unclosed comment'', ErrPosition = sp\<rparr>
      | Some k \<Rightarrow> Inr \<lparr>Type = TOKEN_COMMENT,
                       Value = TrimSpace (slice (input l) start (pos l + k)),
                       Args = [], Position = sp\<rparr>)
   \<and> input (snd (scanComment_loop sp start l)) = input l
   \<and> (\<forall>k. strings_Index (drop (pos l) (input l)) ''--}}'' = Some k
          \<longrightarrow> pos (snd (scanComment_loop sp start l)) = pos l + k + 4)"
proof (induction sp start l rule: scanComment_loop.induct)
  case (1 sp start l)
  show ?case
  proof (cases "pos l < length (input l)")
    case False
    then have "drop (pos l) (input l) = []" by simp
    with False show ?thesis by (subst (1 2 3) scanComment_loop.simps) simp
  next
    case True
    then obtain c cs where d: "drop (pos l) (input l) = c # cs"
      by (cases "drop (pos l) (input l)") auto
    show ?thesis
    proof (cases "matchString l ''--}}''")
      case m: True
      then have yp: "prefix ''--}}'' (c # cs)"
        unfolding matchString_close d .
      have i: "strings_Index (drop (pos l) (input l)) ''--}}'' = Some 0"
        by (simp only: d strings_Index.simps yp if_True)
      have "pos (advanceN 4 l) = pos l + 4"
        using matchString_bound [OF m] by (intro advanceN_pos) simp
      with True m i show ?thesis
        by (subst (1 2 3) scanComment_loop.simps) (simp add: Let_def del: advanceN.simps)
    next
      case m: False
      have cs: "drop (pos (advance l)) (input (advance l)) = cs"
        using True d by (simp add: advance_pos) (metis drop_Suc list.sel(3) tl_drop)
      have np: "\<not> prefix ''--}}'' (c # cs)"
        using m unfolding matchString_close d .
      have i: "strings_Index (drop (pos l) (input l)) ''--}}''
                 = map_option Suc (strings_Index cs ''--}}'')"
        by (simp only: d strings_Index.simps np if_False)
      have e: "scanComment_loop sp start l = scanComment_loop sp start (advance l)"
        using True m by (subst scanComment_loop.simps) simp
      show ?thesis
        using 1 [OF True m] True
        unfolding e i cs
        by (auto simp: advance_pos split: option.splits)
    qed
  qed
qed

text \<open>
  C7, as the code has it. When the lexer, outside a verbatim block, stands at \<open>{{--\<close>:
  if no \<open>--}}\<close> follows, \<open>Tokenize\<close> returns the error \<open>Unclosed comment\<close>, positioned at the
  opener, and no tokens; if one follows, \<open>nextToken\<close> yields the comment token whose value
  is the text between the opener and the first \<open>--}}\<close>, trimmed of white space, the
  lexer continues behind that \<open>--}}\<close>, and \<open>Tokenize\<close> appends the token to its list.
\<close>

theorem comment_at_opener:
  assumes "\<not> inVerbatim l" and "matchString l ''{{--''"
  shows "case strings_Index (drop (pos l + 4) (input l)) ''--}}'' of
           None \<Rightarrow> Tokenize l = Inl \<lparr>Message = ''Unclosed comment'', ErrPosition = here l\<rparr>
         | Some k \<Rightarrow>
             (\<exists>l'. nextToken l =
                      (Inr \<lparr>Type = TOKEN_COMMENT,
                            Value = TrimSpace (slice (input l) (pos l + 4) (pos l + 4 + k)),
                            Args = [], Position = here l\<rparr>, l')
                  \<and> input l' = input l \<and> pos l' = pos l + 4 + k + 4
                  \<and> Tokenize_loop l =
                      Tokenize_loop
                        (l'\<lparr>tokens := tokens l' @
                              [\<lparr>Type = TOKEN_COMMENT,
                                Value = TrimSpace (slice (input l) (pos l + 4) (pos l + 4 + k)),
                                Args = [], Position = here l\<rparr>]\<rparr>))"
proof -
  have bound: "pos l + 4 \<le> length (input l)"
    using matchString_bound [OF assms(2)] by simp
  then have lt: "pos l < length (input l)" by simp
  define l1 where "l1 = advanceN 4 l"
  have p1: "pos l1 = pos l + 4" and i1: "input l1 = input l"
    using bound by (simp_all add: l1_def advanceN_pos del: advanceN.simps)
  have nt: "nextToken l = scanComment_loop (here l) (pos l + 4) l1"
    using lt assms
    by (subst nextToken.simps)
       (simp add: Let_def scanComment_def l1_def [symmetric] p1 del: advanceN.simps)
  note sc = scanComment_loop_Index [of "here l" "pos l + 4" l1, unfolded p1 i1, folded nt]
  show ?thesis
  proof (cases "strings_Index (drop (pos l + 4) (input l)) ''--}}''")
    case None
    then have "fst (nextToken l) = Inl \<lparr>Message = ''Unclosed comment'', ErrPosition = here l\<rparr>"
      using sc by simp
    then have "Tokenize_loop l = Inl \<lparr>Message = ''Unclosed comment'', ErrPosition = here l\<rparr>"
      using lt by (subst Tokenize_loop.simps) (auto split: prod.splits sum.splits)
    with None show ?thesis by (simp add: Tokenize_def)
  next
    case (Some k)
    define tok where "tok = \<lparr>Type = TOKEN_COMMENT,
        Value = TrimSpace (slice (input l) (pos l + 4) (pos l + 4 + k)),
        Args = [], Position = here l\<rparr>"
    obtain r l' where res: "nextToken l = (r, l')" by (cases "nextToken l")
    have r: "r = Inr tok" and inp: "input l' = input l" and ps: "pos l' = pos l + 4 + k + 4"
      using sc Some unfolding res by (simp_all add: tok_def)
    have "Tokenize_loop l = Tokenize_loop (l'\<lparr>tokens := tokens l' @ [tok]\<rparr>)"
      using lt res r by (subst Tokenize_loop.simps) (simp add: tok_def)
    with Some res r inp ps show ?thesis by (simp add: tok_def)
  qed
qed

lemma New_simps [simp]:
  "input (New s) = s" "pos (New s) = 0" "inVerbatim (New s) = False" "tokens (New s) = []"
  "here (New s) = \<lparr>Line = 1, Column = 1, Offset = 0\<rparr>"
  by (simp_all add: New_def here_def)

theorem comment_at_opener_witness:
  "Tokenize (New ''{{-- unclosed'')
     = Inl \<lparr>Message = ''Unclosed comment'', ErrPosition = \<lparr>Line = 1, Column = 1, Offset = 0\<rparr>\<rparr>
   \<and> fst (nextToken (New ''{{--  a comment  --}}x''))
     = Inr \<lparr>Type = TOKEN_COMMENT, Value = ''a comment'', Args = [],
           Position = \<lparr>Line = 1, Column = 1, Offset = 0\<rparr>\<rparr>"
proof -
  have m1: "matchString (New ''{{-- unclosed'') ''{{--''"
    by (simp add: matchString_def slice_def)
  have m2: "matchString (New ''{{--  a comment  --}}x'') ''{{--''"
    by (simp add: matchString_def slice_def)
  have v: "\<And>s. \<not> inVerbatim (New s)" by simp
  have i1: "strings_Index (drop (pos (New ''{{-- unclosed'') + 4) (input (New ''{{-- unclosed''))) ''--}}''
              = None"
    by simp
  have i2: "strings_Index (drop (pos (New ''{{--  a comment  --}}x'') + 4)
                     (input (New ''{{--  a comment  --}}x''))) ''--}}'' = Some 13"
    by simp
  have t: "TrimSpace ''  a comment  '' = ''a comment''"
    by code_simp
  show ?thesis
    using comment_at_opener [OF v m1] comment_at_opener [OF v m2] t
    unfolding i1 i2
    by (auto simp: slice_def)
qed

text \<open>
  A \<open>{{--\<close> inside a verbatim block is text, not an opener: the input below contains
  \<open>{{--\<close> and no \<open>--}}\<close>, and \<open>Tokenize\<close> returns its four tokens.
\<close>

theorem comment_in_verbatim_counterexample:
  "Tokenize (New ''@verbatim{{--@endverbatim'') =
     Inr [\<lparr>Type = TOKEN_VERBATIM_START, Value = ''verbatim'', Args = [],
            Position = \<lparr>Line = 1, Column = 1, Offset = 0\<rparr>\<rparr>,
          \<lparr>Type = TOKEN_TEXT, Value = ''{{--'', Args = [],
            Position = \<lparr>Line = 1, Column = 10, Offset = 9\<rparr>\<rparr>,
          \<lparr>Type = TOKEN_VERBATIM_END, Value = ''endverbatim'', Args = [],
            Position = \<lparr>Line = 1, Column = 14, Offset = 13\<rparr>\<rparr>,
          \<lparr>Type = TOKEN_EOF, Value = [], Args = [],
            Position = \<lparr>Line = 1, Column = 26, Offset = 25\<rparr>\<rparr>]"
  by code_simp

section \<open>The lowering of \<open>@for\<close>\<close>

lemma reDigit_not_reSpace: "reDigit d \<Longrightarrow> \<not> reSpace d"
  by (auto simp: reDigit_def reSpace_def)

lemma reDigit_not_eq: "reDigit d \<Longrightarrow> d \<noteq> CHR ''=''"
  by (auto simp: reDigit_def)

lemma reSpace_not_eq: "reSpace c \<Longrightarrow> c \<noteq> CHR ''=''"
  by (auto simp: reSpace_def)

lemma dropWhile_reSpace_prefix:
  assumes "list_all reSpace ws" and "\<not> reSpace c"
  shows "dropWhile reSpace (ws @ c # rest) = c # rest"
  using assms by (induction ws) auto

lemma forEndAt_complete:
  assumes "list_all reSpace ws1" and "eq = [] \<or> eq = ''=''" and "list_all reSpace ws2"
    and "reDigit d"
  shows "forEndAt (ws1 @ eq @ ws2 @ [d] @ post) \<noteq> None"
proof -
  have nd: "\<not> reSpace d" and de: "d \<noteq> CHR ''=''"
    using assms(4) by (simp_all add: reDigit_not_reSpace reDigit_not_eq)
  have dig: "takeWhile reDigit (d # post) \<noteq> []" using assms(4) by simp
  from assms(2) show ?thesis
  proof
    assume e: "eq = []"
    have "ws1 @ eq @ ws2 @ [d] @ post = (ws1 @ ws2) @ d # post" by (simp add: e)
    moreover have "list_all reSpace (ws1 @ ws2)" using assms(1,3) by simp
    ultimately have "dropWhile reSpace (ws1 @ eq @ ws2 @ [d] @ post) = d # post"
      using dropWhile_reSpace_prefix [OF _ nd] by metis
    then show ?thesis
      using de nd dig by (simp add: forEndAt_def Let_def)
  next
    assume e: "eq = ''=''"
    have ne: "\<not> reSpace (CHR ''='')" by (simp add: reSpace_def)
    have "ws1 @ eq @ ws2 @ [d] @ post = ws1 @ CHR ''='' # (ws2 @ d # post)" by (simp add: e)
    then have "dropWhile reSpace (ws1 @ eq @ ws2 @ [d] @ post) = CHR ''='' # (ws2 @ d # post)"
      using dropWhile_reSpace_prefix [OF assms(1) ne] by metis
    moreover have "dropWhile reSpace (ws2 @ d # post) = d # post"
      by (rule dropWhile_reSpace_prefix [OF assms(3) nd])
    ultimately show ?thesis
      using dig by (simp add: forEndAt_def Let_def)
  qed
qed

lemma forEndAt_sound:
  assumes "forEndAt s = Some ds"
  shows "\<exists>ws1 eq ws2 d post. s = ws1 @ eq @ ws2 @ [d] @ post
           \<and> list_all reSpace ws1 \<and> (eq = [] \<or> eq = ''='') \<and> list_all reSpace ws2 \<and> reDigit d"
proof -
  define ws1 where "ws1 = takeWhile reSpace s"
  define r1 where "r1 = dropWhile reSpace s"
  define eq where "eq = (case r1 of c # t \<Rightarrow> if c = CHR ''='' then ''='' else [] | [] \<Rightarrow> [])"
  define r2 where "r2 = (case r1 of c # t \<Rightarrow> if c = CHR ''='' then t else r1 | [] \<Rightarrow> r1)"
  define ws2 where "ws2 = takeWhile reSpace r2"
  define r3 where "r3 = dropWhile reSpace r2"
  have s: "s = ws1 @ r1" by (simp add: ws1_def r1_def)
  have r1: "r1 = eq @ r2" by (auto simp: eq_def r2_def split: list.splits)
  have r2: "r2 = ws2 @ r3" by (simp add: ws2_def r3_def)
  have "forEndAt s = (if takeWhile reDigit r3 = [] then None else Some (takeWhile reDigit r3))"
    unfolding r3_def r2_def r1_def by (simp add: forEndAt_def Let_def)
  then have "takeWhile reDigit r3 \<noteq> []"
    using assms by (auto split: if_splits)
  then obtain d post where r3: "r3 = d # post" and d: "reDigit d"
    by (cases r3) (auto split: if_splits)
  have "s = ws1 @ eq @ ws2 @ [d] @ post" using s r1 r2 r3 by simp
  moreover have "list_all reSpace ws1" "list_all reSpace ws2"
    by (simp_all add: ws1_def ws2_def list_all_iff) (auto dest: set_takeWhileD)
  moreover have "eq = [] \<or> eq = ''=''" by (auto simp: eq_def split: list.splits)
  ultimately show ?thesis using d by blast
qed

lemma findForEnd_iff: "(findForEnd cond \<noteq> None) = boundLiteralAfterLess cond"
proof
  assume "findForEnd cond \<noteq> None"
  then show "boundLiteralAfterLess cond"
  proof (induction cond)
    case Nil
    then show ?case by simp
  next
    case (Cons c cs)
    show ?case
    proof (cases "c = CHR ''<'' \<and> forEndAt cs \<noteq> None")
      case True
      then obtain ds where "forEndAt cs = Some ds" by auto
      from forEndAt_sound [OF this] obtain ws1 eq ws2 d post where
        "cs = ws1 @ eq @ ws2 @ [d] @ post" "list_all reSpace ws1" "eq = [] \<or> eq = ''=''"
        "list_all reSpace ws2" "reDigit d"
        by blast
      then have "c # cs = [] @ ''<'' @ ws1 @ eq @ ws2 @ [d] @ post
                   \<and> list_all reSpace ws1 \<and> (eq = [] \<or> eq = ''='')
                   \<and> list_all reSpace ws2 \<and> reDigit d"
        using True by simp
      then show ?thesis unfolding boundLiteralAfterLess_def by blast
    next
      case False
      then have "findForEnd cs \<noteq> None"
        using Cons.prems by (auto split: if_splits option.splits)
      from Cons.IH [OF this] obtain pre ws1 eq ws2 d post where
        "cs = pre @ ''<'' @ ws1 @ eq @ ws2 @ [d] @ post" "list_all reSpace ws1"
        "eq = [] \<or> eq = ''=''" "list_all reSpace ws2" "reDigit d"
        unfolding boundLiteralAfterLess_def by blast
      then have "c # cs = (c # pre) @ ''<'' @ ws1 @ eq @ ws2 @ [d] @ post
                   \<and> list_all reSpace ws1 \<and> (eq = [] \<or> eq = ''='')
                   \<and> list_all reSpace ws2 \<and> reDigit d"
        by simp
      then show ?thesis unfolding boundLiteralAfterLess_def by blast
    qed
  qed
next
  assume "boundLiteralAfterLess cond"
  then obtain pre ws1 eq ws2 d post where
    c: "cond = pre @ ''<'' @ ws1 @ eq @ ws2 @ [d] @ post" and
    h: "list_all reSpace ws1" "eq = [] \<or> eq = ''=''" "list_all reSpace ws2" "reDigit d"
    unfolding boundLiteralAfterLess_def by blast
  have "findForEnd (pre @ ''<'' @ ws1 @ eq @ ws2 @ [d] @ post) \<noteq> None"
  proof (induction pre)
    case Nil
    show ?case using forEndAt_complete [OF h, of post] by (auto split: option.splits)
  next
    case (Cons a pre)
    then show ?case by (auto split: option.splits)
  qed
  then show "findForEnd cond \<noteq> None" by (simp add: c)
qed

text \<open>
  C10. When the condition of an \<open>@for\<close> has no such literal, the end of the range is the
  fixed bound 10: \<open>extractForRange\<close> yields the init value (the text after the first \<open>=\<close> of
  the init part, trimmed; the init part without a leading \<open>$\<close> when it has no \<open>=\<close>), a space
  and \<open>10\<close>, and the node is lowered to a range over \<open>seq\<close> of these two, whatever the
  condition names as its bound.
\<close>

theorem for_without_literal_ends_at_10:
  assumes "\<not> boundLiteralAfterLess cond"
  shows "extractForRange init cond =
           (let i0 = TrimPrefix init ''$''
            in case strings_Index i0 ''='' of
                 Some idx \<Rightarrow> TrimSpace (drop (idx + 1) i0)
               | None \<Rightarrow> i0) @ '' 10''
         \<and> fst (compileNode c (ForNode p init cond post children)) =
             (let d = itoa (loopDepth c + 1)
              in ''{{ $__loop'' @ d @ '' := newLoop -1 '' @ d @ '' }}''
                 @ ''{{ range $__idx'' @ d @ '' := seq '' @ extractForRange init cond @ '' }}''
                 @ ''{{ $loop := $__loop'' @ d @ ''.Update $__idx'' @ d @ '' }}''
                 @ fst (compileChildren (c\<lparr>loopDepth := loopDepth c + 1\<rparr>) children)
                 @ ''{{ end }}'')"
proof -
  have "findForEnd cond = None"
    using assms findForEnd_iff [of cond] by blast
  then show ?thesis
    by (simp add: extractForRange_def compileFor_def Let_def split: prod.splits option.splits)
qed

theorem for_without_literal_ends_at_10_witness:
  "\<not> boundLiteralAfterLess ''$i < $n''
   \<and> extractForRange ''$i = 0'' ''$i < $n'' = ''0 10''
   \<and> fst (compileNode compiler_New
             (ForNode zeroPosition ''$i = 0'' ''$i < $n'' ''$i++''
                [EchoNode zeroPosition ''$i'' True])) =
       ''{{ $__loop1 := newLoop -1 1 }}{{ range $__idx1 := seq 0 10 }}{{ $loop := $__loop1.Update $__idx1 }}{{ html .i }}{{ end }}''
   \<and> seq 0 10 = [0, 1, 2, 3, 4, 5, 6, 7, 8, 9, 10]"
proof -
  have f: "findForEnd ''$i < $n'' = None" by code_simp
  have h: "\<not> boundLiteralAfterLess ''$i < $n''"
    using f findForEnd_iff [of "''$i < $n''"] by simp
  have e: "extractForRange ''$i = 0'' ''$i < $n'' = ''0 10''" by code_simp
  have k: "fst (compileChildren (compiler_New\<lparr>loopDepth := loopDepth compiler_New + 1\<rparr>)
                  [EchoNode zeroPosition ''$i'' True]) = ''{{ html .i }}''"
    by code_simp
  have d: "itoa (loopDepth compiler_New + 1) = ''1''" by code_simp
  have s: "seq 0 10 = [0, 1, 2, 3, 4, 5, 6, 7, 8, 9, 10]" by code_simp
  show ?thesis
    using for_without_literal_ends_at_10
            [OF h, of "''$i = 0''" compiler_New zeroPosition "''$i++''"
               "[EchoNode zeroPosition ''$i'' True]"]
    unfolding e k d Let_def
    using h s by simp
qed

section \<open>The lowering of \<open>@while\<close>\<close>


section \<open>What the engine hands to Go's template package\<close>

text \<open>
  C2. \<open>{{ $x }}\<close> is compiled to a call of \<open>html\<close>; \<open>{!! $x !!}\<close> is compiled to the bare action
  \<open>{{ .x }}\<close>, which the engine then parses and executes with \<open>html/template\<close>.
\<close>

theorem echo_compiled:
  "compileString ''{{ $x }}'' = Some (Inr ''{{ html .x }}'')
   \<and> compileString ''{!! $x !!}'' = Some (Inr ''{{ .x }}'')"
  by code_simp

text \<open>
  C4. The \<open>$loop\<close> of the template becomes the field \<open>.loop\<close> of the current element, not the
  variable \<open>$loop\<close> that the lowering declares.
\<close>

theorem foreach_iteration_compiled:
  "compileString ''@foreach($items as $item){{ $loop.iteration }}@endforeach'' =
     Some (Inr ''{{ $__loop1 := newLoop (len .items) 1 }}{{ range $__idx1, $item := .items }}{{ $loop := $__loop1.Update $__idx1 }}{{ html .loop.iteration }}{{ end }}'')"
  by code_simp

text \<open>
  C5. The inner loop record is made by \<open>newLoop\<close> and \<open>Update\<close> alone, the loop stack is not
  used: its \<open>Parent\<close> is nil at every iteration. The expression is compiled to a field of
  the current element as well.
\<close>

theorem inner_loop_has_no_parent:
  "compileString
     ''@foreach($rows as $row)@foreach($cols as $col){{ $loop.parent.iteration }}@endforeach@endforeach'' =
     Some (Inr ''{{ $__loop1 := newLoop (len .rows) 1 }}{{ range $__idx1, $row := .rows }}{{ $loop := $__loop1.Update $__idx1 }}{{ $__loop2 := newLoop (len .cols) 2 }}{{ range $__idx2, $col := .cols }}{{ $loop := $__loop2.Update $__idx2 }}{{ html .loop.parent.iteration }}{{ end }}{{ end }}'')
   \<and> (\<exists>h' b. Update (fst (NewLoop h count depth)) (snd (NewLoop h count depth)) i
                 = Inr (h', Some b)
             \<and> Parent (h' ! b) = None)"
proof -
  have "compileString
     ''@foreach($rows as $row)@foreach($cols as $col){{ $loop.parent.iteration }}@endforeach@endforeach'' =
     Some (Inr ''{{ $__loop1 := newLoop (len .rows) 1 }}{{ range $__idx1, $row := .rows }}{{ $loop := $__loop1.Update $__idx1 }}{{ $__loop2 := newLoop (len .cols) 2 }}{{ range $__idx2, $col := .cols }}{{ $loop := $__loop2.Update $__idx2 }}{{ html .loop.parent.iteration }}{{ end }}{{ end }}'')"
    by code_simp
  moreover have "\<exists>h' b. Update (fst (NewLoop h count depth)) (snd (NewLoop h count depth)) i
                 = Inr (h', Some b)
             \<and> Parent (h' ! b) = None"
    by (simp add: NewLoop_def Update_def Let_def nth_append)
  ultimately show ?thesis by blast
qed

text \<open>
  C8. The pushed fragments are kept in the compiler and are no part of what \<open>compile\<close>
  returns; \<open>@stack\<close> becomes a call of a function \<open>stack\<close>, which is not among the functions
  the engine registers.
\<close>

theorem stack_compiled:
  "compile (''@push('' @ sq @ ''s'' @ sq @ '')A@endpush @push('' @ sq @ ''s'' @ sq
            @ '')B@endpush@stack('' @ sq @ ''s'' @ sq @ '')'') =
     Some (Inr ('' {{ stack '' @ dq @ ''s'' @ dq @ '' }}'', [], []))
   \<and> compile (''@prepend('' @ sq @ ''s'' @ sq @ '')Z@endprepend@push('' @ sq @ ''s'' @ sq
              @ '')A@endpush @push('' @ sq @ ''s'' @ sq @ '')B@endpush@stack('' @ sq @ ''s''
              @ sq @ '')'') =
     Some (Inr ('' {{ stack '' @ dq @ ''s'' @ dq @ '' }}'', [], []))
   \<and> ''stack'' \<notin> set DefaultFunctions"
  by code_simp

section \<open>Cyclic chains of \<open>@extends\<close>\<close>

lemma compileWithInheritance_no_result_on_cycle:
  fixes os :: "'time OS" and parse :: "string list \<Rightarrow> string \<Rightarrow> string \<Rightarrow> string + 't"
  assumes closed: "\<And>n. n \<in> S \<Longrightarrow>
      \<exists>content info compiled ext secs.
         osReadFile os (resolvePath os e n) = Some content
         \<and> osStat os (resolvePath os e n) = Some info
         \<and> compile content = Some (Inr (compiled, ext, secs))
         \<and> ext \<noteq> [] \<and> ext \<in> S"
    and res: "compileWithInheritance os e parse name childCompiled parentName childSections
                = Some r"
    and start: "parentName \<in> S"
  shows False
proof -
  have "os = os \<longrightarrow> e = e \<longrightarrow> parentName \<in> S \<longrightarrow> False"
  proof (rule compileWithInheritance.raw_induct
           [where P = "\<lambda>os' e' parse name cc pn cs r. os' = os \<longrightarrow> e' = e \<longrightarrow> pn \<in> S \<longrightarrow> False",
            OF _ res], intro impI, goal_cases)
    case (1 f os' e' parse name cc pn cs r)
    from closed [OF \<open>pn \<in> S\<close>] obtain content info compiled ext secs where
      rd: "osReadFile os (resolvePath os e pn) = Some content"
      and st: "osStat os (resolvePath os e pn) = Some info"
      and cp: "compile content = Some (Inr (compiled, ext, secs))"
      and ne: "ext \<noteq> []" and mem: "ext \<in> S"
      by blast
    have "f os e parse name
          (foldl (replaceSection secs) compiled (mergeSections cs secs))
          ext (mergeSections cs secs) = Some r"
      using 1(2) unfolding \<open>os' = os\<close> \<open>e' = e\<close>
      by (simp add: Let_def rd st cp ne)
    from 1(1) [OF this] mem show ?case by simp
  qed
  with start show False by simp
qed

text \<open>
  C1, as the code has it. Let \<open>S\<close> be a set of template names closed under \<open>@extends\<close>:
  every template in \<open>S\<close> can be read, compiles, and extends a template in \<open>S\<close> (a cyclic
  chain, the templates being finitely many). The resolution that starts at a parent in
  \<open>S\<close> keeps no record of the names it has visited and reports no error: the call of
  \<open>compileWithInheritance\<close> does not return.
\<close>

theorem cyclic_extends_does_not_return:
  fixes os :: "'time OS" and parse :: "string list \<Rightarrow> string \<Rightarrow> string \<Rightarrow> string + 't"
  assumes "\<And>n. n \<in> S \<Longrightarrow>
      \<exists>content info compiled ext secs.
         osReadFile os (resolvePath os e n) = Some content
         \<and> osStat os (resolvePath os e n) = Some info
         \<and> compile content = Some (Inr (compiled, ext, secs))
         \<and> ext \<noteq> [] \<and> ext \<in> S"
    and "parentName \<in> S"
  shows "compileWithInheritance os e parse name childCompiled parentName childSections = None"
proof (cases "compileWithInheritance os e parse name childCompiled parentName childSections")
  case None
  then show ?thesis .
next
  case (Some r)
  from compileWithInheritance_no_result_on_cycle [of S os e, OF assms(1) Some assms(2)]
  show ?thesis by simp
qed

lemma cyc_closed:
  assumes "n \<in> {''A'', ''B''}"
  shows "\<exists>content info compiled ext secs.
         osReadFile cyc_os (resolvePath cyc_os cyc_engine n) = Some content
         \<and> osStat cyc_os (resolvePath cyc_os cyc_engine n) = Some info
         \<and> compile content = Some (Inr (compiled, ext, secs))
         \<and> ext \<noteq> [] \<and> ext \<in> {''A'', ''B''}"
proof -
  have pa: "resolvePath cyc_os cyc_engine ''A'' = ''views/A.legit''" by code_simp
  have pb: "resolvePath cyc_os cyc_engine ''B'' = ''views/B.legit''" by code_simp
  have ra: "osReadFile cyc_os ''views/A.legit'' = Some (''@extends('' @ sq @ ''B'' @ sq @ '')'')"
    by (simp add: cyc_os_def cyc_files_def)
  have rb: "osReadFile cyc_os ''views/B.legit'' = Some (''@extends('' @ sq @ ''A'' @ sq @ '')'')"
    by (simp add: cyc_os_def cyc_files_def)
  have sa: "osStat cyc_os ''views/A.legit'' = Some 0"
    by (simp add: cyc_os_def cyc_files_def)
  have sb: "osStat cyc_os ''views/B.legit'' = Some 0"
    by (simp add: cyc_os_def cyc_files_def)
  have ca: "compile (''@extends('' @ sq @ ''B'' @ sq @ '')'') = Some (Inr ([], ''B'', []))"
    by code_simp
  have cb: "compile (''@extends('' @ sq @ ''A'' @ sq @ '')'') = Some (Inr ([], ''A'', []))"
    by code_simp
  from assms consider "n = ''A''" | "n = ''B''" by auto
  then show ?thesis
  proof cases
    case 1
    show ?thesis unfolding 1 pa ra sa using ca by simp
  next
    case 2
    show ?thesis unfolding 2 pb rb sb using cb by simp
  qed
qed

theorem cyclic_extends_does_not_return_witness:
  "compileWithInheritance cyc_os cyc_engine cyc_parse ''A'' [] ''B'' [] = None"
  using cyclic_extends_does_not_return [of "{''A'', ''B''}" cyc_os cyc_engine "''B''" cyc_parse
          "''A''" "[]" "[]", OF cyc_closed]
  by simp

text \<open>
  Compiling the file of template \<open>A\<close> therefore yields no error value, and no template.
\<close>

theorem cyclic_extends_counterexample:
  "\<not> (\<exists>err. compileFile cyc_os cyc_engine cyc_parse ''A'' ''views/A.legit'' = Some (Inl err))"
proof -
  have ca: "compile (''@extends('' @ sq @ ''B'' @ sq @ '')'') = Some (Inr ([], ''B'', []))"
    by code_simp
  have "compileFile cyc_os cyc_engine cyc_parse ''A'' ''views/A.legit''
          = compileWithInheritance cyc_os cyc_engine cyc_parse ''A'' [] ''B'' []"
    by (simp add: compileFile_def cyc_os_def cyc_files_def ca [simplified])
  moreover have "compileWithInheritance cyc_os cyc_engine cyc_parse ''A'' [] ''B'' [] \<noteq> Some r"
    for r
    using compileWithInheritance_no_result_on_cycle
            [of "{''A'', ''B''}" cyc_os cyc_engine cyc_parse "''A''" "[]" "''B''" "[]" r,
             OF cyc_closed]
    by auto
  ultimately show ?thesis by simp
qed

section \<open>A clone and its original share no storage\<close>

lemma mapArrays_None [simp]: "mapArrays h None = {}"
  by (simp add: mapArrays_def entriesSlice_def sliceArrays_def)

lemma mapArrays_Some [simp]: "mapArrays h (Some a) = sliceArrays (sliceMaps h ! a)"
  by (simp add: mapArrays_def entriesSlice_def)



lemma sliceArrays_Nil [simp]: "sliceArrays [] = {}"
  by (simp add: sliceArrays_def)





lemma assignAllStr_effect:
  assumes "assignAllStr h m es = Inr h'"
  shows "\<exists>M. h' = h\<lparr>strMaps := M\<rparr> \<and> length M = length (strMaps h)
           \<and> (\<forall>i. m \<noteq> Some i \<longrightarrow> M ! i = strMaps h ! i)"
  using assms
proof (induction es arbitrary: h)
  case Nil
  then show ?case by (intro exI [of _ "strMaps h"]) simp
next
  case (Cons e es)
  obtain k v where e: "e = (k, v)" by (cases e)
  from Cons.prems e obtain a where m: "m = Some a"
    by (cases m) (simp_all add: assignStr_def)
  define h1 where "h1 = h\<lparr>strMaps := (strMaps h)[a := AList.update k v (strMaps h ! a)]\<rparr>"
  from Cons.prems e m have "assignAllStr h1 m es = Inr h'"
    by (simp add: assignStr_def h1_def)
  from Cons.IH [OF this] obtain M where
    M: "h' = h1\<lparr>strMaps := M\<rparr>" "length M = length (strMaps h1)"
       "\<forall>i. m \<noteq> Some i \<longrightarrow> M ! i = strMaps h1 ! i"
    by blast
  show ?case using M m by (intro exI [of _ M]) (simp add: h1_def)
qed

















































end
